theory Spec2Isabelle
  imports Complex_Main
begin

section \<open>Persistent store (D1 tables used by the monitoring core)\<close>

text \<open>
  The tables of \<^verbatim>\<open>D1_SCHEMAS\<close> that the endpoint engine reads and writes.
  Statuses are the strings of the source (\<^verbatim>\<open>'PENDING'\<close>, \<^verbatim>\<open>'UP'\<close>,
  \<^verbatim>\<open>'DOWN'\<close>, \<^verbatim>\<open>'TIMEOUT'\<close>, \<^verbatim>\<open>'ERROR'\<close>); nullable columns are options;
  timestamps are seconds since the epoch.
\<close>

record site_row =
  last_checked :: "int option"
  last_status :: "string option"
  last_status_code :: "int option"
  last_response_time_ms :: "int option"
  last_notified_down_at :: "int option"

record history_row =
  h_site_id :: string
  h_timestamp :: int
  h_status :: string
  h_status_code :: "int option"
  h_response_time_ms :: "int option"

text \<open>
  A parsed JSON value, as \<^verbatim>\<open>request.json()\<close> returns it. An object is the list of
  its members in source order; a repeated key takes its last value.
\<close>

datatype json =
    JNull
  | JBool bool
  | JNum rat
  | JStr string
  | JArr "json list"
  | JObj "(string \<times> json) list"

text \<open>A row of \<^verbatim>\<open>servers\<close> and a row of \<^verbatim>\<open>metrics\<close> (one per server, replaced on report).\<close>

record server_row =
  server_name :: string
  api_key :: string
  server_last_notified_down_at :: "int option"

record metrics_row =
  m_timestamp :: json
  m_cpu :: json
  m_memory :: json
  m_disk :: json
  m_network :: json
  m_uptime :: json
  m_ping :: json

text \<open>The single row (\<^verbatim>\<open>id = 1\<close>) of \<^verbatim>\<open>telegram_config\<close>.\<close>

record telegram_config =
  bot_token :: "string option"
  chat_id :: "string option"
  enable_notifications :: "int option"

record db =
  monitored_sites :: "string \<rightharpoonup> site_row"
  site_status_history :: "history_row list"
  telegram_config_row :: "telegram_config option"
  servers :: "string \<rightharpoonup> server_row"
  metrics :: "string \<rightharpoonup> metrics_row"

text \<open>The argument \<^verbatim>\<open>site\<close> of \<^verbatim>\<open>checkWebsiteStatus\<close>: \<^verbatim>\<open>{ id, url, name }\<close>.\<close>

record site =
  site_id :: string
  site_url :: string
  site_name :: "string option"

section \<open>Effects of one endpoint check\<close>

text \<open>
  What \<^verbatim>\<open>fetch\<close> gives back: a response with its HTTP status, or a rejection with
  the \<^verbatim>\<open>name\<close> of the error thrown.
\<close>

datatype fetch_outcome = Response int | Rejected string

text \<open>The one call \<^verbatim>\<open>fetch(url, { method: 'HEAD', redirect: 'follow', signal: AbortSignal.timeout(15000) })\<close>.\<close>

record fetch_request =
  req_url :: string
  req_method :: string
  req_redirect :: string
  req_timeout_ms :: nat

text \<open>
  The messages handed to \<^verbatim>\<open>sendTelegramNotification\<close>, one constructor per message
  template of the source, with the values the template interpolates (display name, status,
  status code or none, URL; for a host, display name and time of the last report or none).
\<close>

datatype notification =
    SiteDown string string "int option" string
  | SiteStillDown string string "int option" string
  | SiteRecovered string string
  | VpsDown string "int option"
  | VpsRecovered string "int option"

text \<open>
  The environment of the dispatcher: whether its read of the configuration throws, and what
  the call to the messaging API returns.
\<close>

record dispatch_env =
  config_select_throws :: bool
  telegram_result :: fetch_outcome

text \<open>One outbound \<^verbatim>\<open>sendMessage\<close> call: bot token, chat id, text.\<close>

record telegram_post =
  post_token :: string
  post_chat_id :: string
  post_text :: notification

text \<open>
  The environment of one call: whether the initial \<^verbatim>\<open>SELECT\<close> throws, what the probe
  returns, the three readings of \<^verbatim>\<open>Date.now()\<close> (milliseconds), whether
  \<^verbatim>\<open>db.batch\<close> throws, and the dispatcher's environment.
\<close>

record check_env =
  select_throws :: bool
  fetch_result :: fetch_outcome
  start_ms :: int
  fetched_ms :: int
  check_ms :: int
  batch_throws :: bool
  dispatch :: dispatch_env

text \<open>
  What one call does: the probes it issued, the messages it handed to the dispatcher, the
  outbound calls the dispatcher made for them, the two statements it put into the batch,
  whether the batch was committed, and the store afterwards.
\<close>

record check_outcome =
  fetch_calls :: "fetch_request list"
  sent :: "notification list"
  telegram_posts :: "telegram_post list"
  batch_update :: "string \<times> site_row"
  batch_insert :: history_row
  batch_committed :: bool
  db_after :: db

section \<open>\<^verbatim>\<open>sendTelegramNotification\<close>\<close>

text \<open>The value of a nullable field where it is known to be set, with a default otherwise.\<close>

definition the_default :: "'a \<Rightarrow> 'a option \<Rightarrow> 'a" where
  "the_default x a = (case a of None \<Rightarrow> x | Some y \<Rightarrow> y)"

text \<open>JavaScript truthiness of a nullable string and of a nullable integer.\<close>

definition truthy_str :: "string option \<Rightarrow> bool" where
  "truthy_str a = (case a of None \<Rightarrow> False | Some s \<Rightarrow> s \<noteq> [])"

definition truthy_int :: "int option \<Rightarrow> bool" where
  "truthy_int a = (case a of None \<Rightarrow> False | Some n \<Rightarrow> n \<noteq> 0)"

text \<open>
  \<^verbatim>\<open>!config || !config.enable_notifications || !config.bot_token || !config.chat_id\<close>,
  negated: the channel is configured and enabled.
\<close>

definition config_enabled :: "telegram_config option \<Rightarrow> bool" where
  "config_enabled c =
     (case c of
        None \<Rightarrow> False
      | Some cfg \<Rightarrow> truthy_int (enable_notifications cfg) \<and> truthy_str (bot_token cfg)
                    \<and> truthy_str (chat_id cfg))"

text \<open>
  The dispatcher returns nothing and throws nothing: every failure is caught and logged.
  The model gives the outbound calls it makes, none or one.
\<close>

definition sendTelegramNotification :: "dispatch_env \<Rightarrow> db \<Rightarrow> notification \<Rightarrow> telegram_post list" where
  "sendTelegramNotification denv d message =
     (if config_select_throws denv then []
      else if \<not> config_enabled (telegram_config_row d) then []
      else case telegram_config_row d of
             None \<Rightarrow> []
           | Some cfg \<Rightarrow>
               [\<lparr> post_token = the_default [] (bot_token cfg),
                  post_chat_id = the_default [] (chat_id cfg), post_text = message \<rparr>])"

section \<open>\<^verbatim>\<open>checkWebsiteStatus\<close>\<close>

definition FAILING :: "string list" where
  "FAILING = [''DOWN'', ''TIMEOUT'', ''ERROR'']"

definition array_includes :: "string list \<Rightarrow> string \<Rightarrow> bool" where
  "array_includes xs s = (s \<in> set xs)"

definition NOTIFICATION_INTERVAL_SECONDS :: int where
  "NOTIFICATION_INTERVAL_SECONDS = 1 * 60 * 60"

text \<open>JavaScript \<^verbatim>\<open>a || b\<close> on a nullable string: the empty string is falsy as well.\<close>

definition or_else :: "string option \<Rightarrow> string \<Rightarrow> string" where
  "or_else a b = (case a of None \<Rightarrow> b | Some s \<Rightarrow> if s = [] then b else s)"

text \<open>\<^verbatim>\<open>newStatusCode || '...'\<close> in the message templates: null and 0 both print as "none".\<close>

definition code_or_none :: "int option \<Rightarrow> int option" where
  "code_or_none c = (case c of None \<Rightarrow> None | Some n \<Rightarrow> if n = 0 then None else Some n)"

text \<open>
  Lines 1148 to 1157: the persisted previous status and notification time, read before the
  probe. A throwing read, or no row, leaves the defaults \<^verbatim>\<open>'PENDING'\<close> and null.
\<close>

definition read_previous :: "bool \<Rightarrow> db \<Rightarrow> string \<Rightarrow> string \<times> int option" where
  "read_previous throws d i =
     (if throws then (''PENDING'', None)
      else case monitored_sites d i of
             None \<Rightarrow> (''PENDING'', None)
           | Some r \<Rightarrow> (or_else (last_status r) ''PENDING'', last_notified_down_at r))"

text \<open>\<^verbatim>\<open>response.ok\<close>: the status is in the range 200 to 299.\<close>

definition response_ok :: "int \<Rightarrow> bool" where
  "response_ok st = (200 \<le> st \<and> st \<le> 299)"

text \<open>Lines 1161 to 1179: the probe's classification, giving the new status and status code.\<close>

definition classify :: "fetch_outcome \<Rightarrow> string \<times> int option" where
  "classify r =
     (case r of
        Response st \<Rightarrow>
          (if response_ok st \<or> (300 \<le> st \<and> st < 500) then ''UP'' else ''DOWN'', Some st)
      | Rejected name \<Rightarrow>
          (if name = ''TimeoutError'' then ''TIMEOUT'' else ''ERROR'', None))"

text \<open>
  \<^verbatim>\<open>siteLastNotifiedDownAt === null || (checkTime - siteLastNotifiedDownAt > NOTIFICATION_INTERVAL_SECONDS)\<close>;
  the host pass of \<^verbatim>\<open>scheduled\<close> has the same expression.
\<close>

definition shouldResend :: "int option \<Rightarrow> int \<Rightarrow> bool" where
  "shouldResend lastNotifiedDownAt checkTime =
     (case lastNotifiedDownAt of
        None \<Rightarrow> True
      | Some t \<Rightarrow> checkTime - t > NOTIFICATION_INTERVAL_SECONDS)"

text \<open>
  Lines 1183 to 1208: the notification decision. Arguments: display name, URL, previous
  status, stored notification time, new status, new status code, check time. Result: the
  messages sent and the new value of \<^verbatim>\<open>newSiteLastNotifiedDownAt\<close>.
\<close>

definition decide ::
  "string \<Rightarrow> string \<Rightarrow> string \<Rightarrow> int option \<Rightarrow> string \<Rightarrow> int option \<Rightarrow> int
     \<Rightarrow> notification list \<times> int option" where
  "decide display url previousStatus siteLastNotifiedDownAt newStatus newStatusCode checkTime =
     (if array_includes FAILING newStatus then
        (let isFirstTimeDown = \<not> array_includes FAILING previousStatus in
         if isFirstTimeDown then
           ([SiteDown display newStatus (code_or_none newStatusCode) url], Some checkTime)
         else
           (if shouldResend siteLastNotifiedDownAt checkTime then
              ([SiteStillDown display newStatus (code_or_none newStatusCode) url], Some checkTime)
            else ([], siteLastNotifiedDownAt)))
      else if newStatus = ''UP'' \<and> array_includes FAILING previousStatus then
        ([SiteRecovered display url], None)
      else ([], siteLastNotifiedDownAt))"

text \<open>
  Lines 1210 to 1225: \<^verbatim>\<open>db.batch\<close> runs the \<^verbatim>\<open>UPDATE\<close> and the \<^verbatim>\<open>INSERT\<close> as one
  transaction. When it throws, the error is logged and the store keeps its contents. The
  \<^verbatim>\<open>UPDATE ... WHERE id = ?\<close> changes the row of that id when there is one.
\<close>

definition db_batch :: "bool \<Rightarrow> string \<times> site_row \<Rightarrow> history_row \<Rightarrow> db \<Rightarrow> db" where
  "db_batch throws upd ins d =
     (if throws then d
      else d\<lparr> monitored_sites :=
                 (case monitored_sites d (fst upd) of
                    None \<Rightarrow> monitored_sites d
                  | Some _ \<Rightarrow> (monitored_sites d)(fst upd \<mapsto> snd upd)),
               site_status_history := site_status_history d @ [ins] \<rparr>)"

definition checkWebsiteStatus :: "check_env \<Rightarrow> site \<Rightarrow> db \<Rightarrow> check_outcome" where
  "checkWebsiteStatus env s d =
     (let (previousStatus, siteLastNotifiedDownAt) = read_previous (select_throws env) d (site_id s);
          request = \<lparr> req_url = site_url s, req_method = ''HEAD'', req_redirect = ''follow'',
                      req_timeout_ms = 15000 \<rparr>;
          (newStatus, newStatusCode) = classify (fetch_result env);
          newResponseTime = Some (fetched_ms env - start_ms env);
          checkTime = check_ms env div 1000;
          siteDisplayName = or_else (site_name s) (site_url s);
          (messages, newSiteLastNotifiedDownAt) =
             decide siteDisplayName (site_url s) previousStatus siteLastNotifiedDownAt
                    newStatus newStatusCode checkTime;
          upd = (site_id s,
                 \<lparr> last_checked = Some checkTime, last_status = Some newStatus,
                   last_status_code = newStatusCode, last_response_time_ms = newResponseTime,
                   last_notified_down_at = newSiteLastNotifiedDownAt \<rparr>);
          ins = \<lparr> h_site_id = site_id s, h_timestamp = checkTime, h_status = newStatus,
                  h_status_code = newStatusCode, h_response_time_ms = newResponseTime \<rparr>
      in \<lparr> fetch_calls = [request], sent = messages,
           telegram_posts = concat (map (sendTelegramNotification (dispatch env) d) messages),
           batch_update = upd, batch_insert = ins,
           batch_committed = (\<not> batch_throws env),
           db_after = db_batch (batch_throws env) upd ins d \<rparr>)"

text \<open>
  Consecutive checks of one endpoint by successive scheduler triggers: each call reads the
  store the previous one left.
\<close>

fun run_checks :: "check_env list \<Rightarrow> site \<Rightarrow> db \<Rightarrow> check_outcome list" where
  "run_checks [] s d = []"
| "run_checks (e # es) s d =
     (let out = checkWebsiteStatus e s d in out # run_checks es s (db_after out))"

fun final_db :: "check_env list \<Rightarrow> site \<Rightarrow> db \<Rightarrow> db" where
  "final_db [] s d = d"
| "final_db (e # es) s d = final_db es s (db_after (checkWebsiteStatus e s d))"


text \<open>Shorthands for what one call reads, classifies and decides.\<close>

abbreviation "prev_of env s d \<equiv> read_previous (select_throws env) d (site_id s)"
abbreviation "new_of env \<equiv> classify (fetch_result env)"
abbreviation "decision env s d \<equiv>
   decide (or_else (site_name s) (site_url s)) (site_url s) (fst (prev_of env s d)) (snd (prev_of env s d))
          (fst (new_of env)) (snd (new_of env)) (check_ms env div 1000)"


text \<open>
  Reading a trace of checks: whether a probe classifies as failing, whether a check sent a
  "down" or "still down" message, and the current unbroken run of failing statuses among
  the checks whose batch was committed (the persisted status events), latest first.
\<close>

definition failing_check :: "check_env \<Rightarrow> bool" where
  "failing_check e = array_includes FAILING (fst (classify (fetch_result e)))"

fun is_down_notice :: "notification \<Rightarrow> bool" where
  "is_down_notice (SiteDown _ _ _ _) = True"
| "is_down_notice (SiteStillDown _ _ _ _) = True"
| "is_down_notice _ = False"

fun is_recovery_notice :: "notification \<Rightarrow> bool" where
  "is_recovery_notice (SiteRecovered _ _) = True"
| "is_recovery_notice _ = False"

definition notified_down :: "check_outcome \<Rightarrow> bool" where
  "notified_down out = list_ex is_down_notice (sent out)"

definition current_run :: "check_outcome list \<Rightarrow> check_outcome list" where
  "current_run tr =
     takeWhile (\<lambda>out. array_includes FAILING (h_status (batch_insert out)))
               (rev (filter batch_committed tr))"

definition run_notified :: "check_outcome list \<Rightarrow> bool" where
  "run_notified tr = list_ex notified_down (current_run tr)"

text \<open>
  The invariant of the engine on an endpoint's row and the trace of its checks: the
  notification time is set only while the current failing run has been notified, and the
  stored status is that of the last committed check.
\<close>

definition engine_inv :: "site \<Rightarrow> db \<Rightarrow> check_outcome list \<Rightarrow> bool" where
  "engine_inv s d tr =
     (case monitored_sites d (site_id s) of
        None \<Rightarrow> False
      | Some r \<Rightarrow>
          (last_notified_down_at r \<noteq> None \<longrightarrow> run_notified tr) \<and>
          (filter batch_committed tr \<noteq> [] \<longrightarrow>
             last_status r = Some (h_status (batch_insert (last (filter batch_committed tr))))))"

section \<open>\<^verbatim>\<open>scheduled\<close>, part 1: the endpoint checks in waves\<close>

text \<open>
  The loop over \<^verbatim>\<open>sitesToCheck\<close> as the trace of what it does: \<^verbatim>\<open>Start s\<close> is the call
  \<^verbatim>\<open>checkWebsiteStatus(site, ...)\<close> whose promise is pushed, \<^verbatim>\<open>AwaitAll ps\<close> is
  \<^verbatim>\<open>await Promise.all(sitePromises)\<close> on the promises \<^verbatim>\<open>ps\<close>, after which the array is
  emptied. \<^verbatim>\<open>checkWebsiteStatus\<close> catches every error, so no promise rejects and
  \<^verbatim>\<open>Promise.all\<close> returns when all of \<^verbatim>\<open>ps\<close> have finished.
\<close>

datatype 'a sched_event = Start 'a | AwaitAll "'a list"

definition siteConcurrencyLimit :: nat where
  "siteConcurrencyLimit = 10"

fun site_loop :: "'a list \<Rightarrow> 'a list \<Rightarrow> 'a sched_event list" where
  "site_loop [] sitePromises =
     (if length sitePromises > 0 then [AwaitAll sitePromises] else [])"
| "site_loop (site # rest) sitePromises =
     (let pushed = sitePromises @ [site] in
      Start site #
        (if length pushed \<ge> siteConcurrencyLimit then AwaitAll pushed # site_loop rest []
         else site_loop rest pushed))"

definition scheduled_sites :: "'a list \<Rightarrow> 'a sched_event list" where
  "scheduled_sites sitesToCheck =
     (if length sitesToCheck > 0 then site_loop sitesToCheck [] else [])"

text \<open>
  The number of checks in flight after each event of a trace, from \<open>n\<close> in flight before
  it: a start adds one, an await returns once the awaited checks are done.
\<close>

fun in_flight :: "nat \<Rightarrow> 'a sched_event list \<Rightarrow> nat list" where
  "in_flight n [] = []"
| "in_flight n (Start _ # es) = Suc n # in_flight (Suc n) es"
| "in_flight n (AwaitAll ps # es) = (n - length ps) # in_flight (n - length ps) es"

fun waves :: "'a sched_event list \<Rightarrow> 'a list list" where
  "waves [] = []"
| "waves (Start _ # es) = waves es"
| "waves (AwaitAll ps # es) = ps # waves es"

fun started :: "'a sched_event list \<Rightarrow> 'a list" where
  "started [] = []"
| "started (Start x # es) = x # started es"
| "started (AwaitAll _ # es) = started es"

text \<open>
  What each event of a trace leaves in flight, paired with the event: a start leaves
  between 1 and the limit, an await covers between 1 and the limit checks and leaves none.
\<close>

fun wave_ok :: "'a sched_event \<times> nat \<Rightarrow> bool" where
  "wave_ok (Start _, n) = (1 \<le> n \<and> n \<le> siteConcurrencyLimit)"
| "wave_ok (AwaitAll ps, n) = (n = 0 \<and> 1 \<le> length ps \<and> length ps \<le> siteConcurrencyLimit)"

section \<open>\<^verbatim>\<open>scheduled\<close>, part 2: the host pass\<close>

text \<open>
  A row of \<^verbatim>\<open>SELECT s.id, s.name, s.last_notified_down_at, m.timestamp as last_report FROM
  servers s LEFT JOIN metrics m\<close>: \<^verbatim>\<open>last_report\<close> is null for a host without a metrics row.
\<close>

record server_result =
  sr_id :: string
  sr_name :: string
  sr_last_notified_down_at :: "int option"
  sr_last_report :: "int option"

definition staleThresholdSeconds :: int where
  "staleThresholdSeconds = 5 * 60"

text \<open>\<^verbatim>\<open>!server.last_report || (nowSeconds - server.last_report > staleThresholdSeconds)\<close>\<close>

definition isStale :: "int \<Rightarrow> int option \<Rightarrow> bool" where
  "isStale nowSeconds last_report =
     (case last_report of
        None \<Rightarrow> True
      | Some t \<Rightarrow> t = 0 \<or> nowSeconds - t > staleThresholdSeconds)"

text \<open>
  The body of the loop over \<^verbatim>\<open>serversToCheck\<close>: the messages sent and the
  \<^verbatim>\<open>UPDATE servers SET last_notified_down_at = ? WHERE id = ?\<close> statements issued, each as
  the pair of id and new value.
\<close>

definition check_server :: "int \<Rightarrow> server_result \<Rightarrow> notification list \<times> (string \<times> int option) list" where
  "check_server nowSeconds server =
     (let serverDisplayName = (if sr_name server = [] then sr_id server else sr_name server);
          lastReport = (if truthy_int (sr_last_report server) then sr_last_report server else None)
      in if isStale nowSeconds (sr_last_report server) then
           (if shouldResend (sr_last_notified_down_at server) nowSeconds then
              ([VpsDown serverDisplayName lastReport], [(sr_id server, Some nowSeconds)])
            else ([], []))
         else
           (if sr_last_notified_down_at server \<noteq> None then
              ([VpsRecovered serverDisplayName lastReport], [(sr_id server, None)])
            else ([], [])))"

text \<open>
  The environment of the host pass: whether the query over the endpoints in part 1, the
  read of the configuration or the query over the servers throws (the enclosing
  \<^verbatim>\<open>try\<close> then ends the task), the rows the query returns, and \<^verbatim>\<open>Date.now()\<close>.
\<close>

record vps_env =
  sites_query_throws :: bool
  vps_config_throws :: bool
  servers_query_throws :: bool
  serversToCheck :: "server_result list"
  now_ms :: int

record vps_outcome =
  vps_sent :: "notification list"
  vps_updates :: "(string \<times> int option) list"

definition scheduled_vps :: "vps_env \<Rightarrow> db \<Rightarrow> vps_outcome" where
  "scheduled_vps env d =
     (if sites_query_throws env then \<lparr> vps_sent = [], vps_updates = [] \<rparr>
      else if vps_config_throws env then \<lparr> vps_sent = [], vps_updates = [] \<rparr>
      else if \<not> config_enabled (telegram_config_row d) then \<lparr> vps_sent = [], vps_updates = [] \<rparr>
      else if servers_query_throws env then \<lparr> vps_sent = [], vps_updates = [] \<rparr>
      else if length (serversToCheck env) = 0 then \<lparr> vps_sent = [], vps_updates = [] \<rparr>
      else
        (let nowSeconds = now_ms env div 1000;
             results = map (check_server nowSeconds) (serversToCheck env)
         in \<lparr> vps_sent = concat (map fst results), vps_updates = concat (map snd results) \<rparr>))"

text \<open>An \<^verbatim>\<open>UPDATE servers SET last_notified_down_at = ? WHERE id = ?\<close> that succeeds.\<close>

definition update_server :: "string \<times> int option \<Rightarrow> db \<Rightarrow> db" where
  "update_server u d =
     (case servers d (fst u) of
        None \<Rightarrow> d
      | Some r \<Rightarrow> d\<lparr> servers := (servers d)(fst u \<mapsto> r\<lparr> server_last_notified_down_at := snd u \<rparr>) \<rparr>)"

section \<open>Metrics ingestion: \<^verbatim>\<open>POST /api/report/:id\<close>\<close>

text \<open>
  Property access on a parsed JSON value that is not null: a member of an object, and
  \<^verbatim>\<open>undefined\<close> (here \<open>None\<close>) for a missing member and on numbers, strings, booleans and
  arrays.
\<close>

definition get_prop :: "json \<Rightarrow> string \<Rightarrow> json option" where
  "get_prop v k = (case v of JObj kvs \<Rightarrow> map_of (rev kvs) k | _ \<Rightarrow> None)"

text \<open>JavaScript truthiness: null, false, 0, the empty string and undefined are falsy.\<close>

fun truthy :: "json \<Rightarrow> bool" where
  "truthy JNull = False"
| "truthy (JBool b) = b"
| "truthy (JNum n) = (n \<noteq> 0)"
| "truthy (JStr s) = (s \<noteq> [])"
| "truthy (JArr _) = True"
| "truthy (JObj _) = True"

definition truthy_prop :: "json \<Rightarrow> string \<Rightarrow> bool" where
  "truthy_prop v k = (case get_prop v k of None \<Rightarrow> False | Some j \<Rightarrow> truthy j)"

text \<open>\<^verbatim>\<open>String.prototype.includes\<close>.\<close>

fun str_includes :: "string \<Rightarrow> string \<Rightarrow> bool" where
  "str_includes [] needle = (needle = [])"
| "str_includes (c # cs) needle =
     (take (length needle) (c # cs) = needle \<or> str_includes cs needle)"

text \<open>
  The environment of one report: the message of the error the \<^verbatim>\<open>SELECT\<close> throws, if it
  does; the parsed body, or the message of the error \<^verbatim>\<open>request.json()\<close> throws; the
  message of the error the \<^verbatim>\<open>REPLACE\<close> throws, if it does; and whether the schema creation
  in the handler of "no such table" throws.
\<close>

record report_env =
  server_select_throws :: "string option"
  body :: "string + json"
  replace_throws :: "string option"
  exec_throws :: bool

text \<open>
  The \<^verbatim>\<open>catch\<close> of the route: status 503 after creating the tables when the message has
  "no such table" (\<^verbatim>\<open>CREATE TABLE IF NOT EXISTS\<close> changes no row), 500 otherwise.
\<close>

definition report_catch :: "bool \<Rightarrow> string \<Rightarrow> nat" where
  "report_catch exec_fails message =
     (if str_includes message ''no such table'' then (if exec_fails then 500 else 503)
      else 500)"

definition metrics_of :: "json \<Rightarrow> metrics_row" where
  "metrics_of reportData =
     \<lparr> m_timestamp = the_default JNull (get_prop reportData ''timestamp''),
       m_cpu = the_default JNull (get_prop reportData ''cpu''),
       m_memory = the_default JNull (get_prop reportData ''memory''),
       m_disk = the_default JNull (get_prop reportData ''disk''),
       m_network = the_default JNull (get_prop reportData ''network''),
       m_uptime = the_default JNull (get_prop reportData ''uptime''),
       m_ping = (if truthy_prop reportData ''ping''
                 then the_default JNull (get_prop reportData ''ping'') else JObj []) \<rparr>"

text \<open>
  The route, from the API key check to the response: the HTTP status and the store
  afterwards. Reading a property of \<^verbatim>\<open>null\<close> throws a TypeError, whose message has no
  "no such table".
\<close>

definition handle_report :: "report_env \<Rightarrow> string \<Rightarrow> string option \<Rightarrow> db \<Rightarrow> nat \<times> db" where
  "handle_report env serverId apiKey d =
     (if \<not> truthy_str apiKey then (401, d)
      else case server_select_throws env of
        Some message \<Rightarrow> (report_catch (exec_throws env) message, d)
      | None \<Rightarrow>
         (case servers d serverId of
            None \<Rightarrow> (404, d)
          | Some serverData \<Rightarrow>
              if Some (api_key serverData) \<noteq> apiKey then (401, d)
              else
                (case body env of
                   Inl message \<Rightarrow> (report_catch (exec_throws env) message, d)
                 | Inr reportData \<Rightarrow>
                     if reportData = JNull then (500, d)
                     else if \<not> truthy_prop reportData ''timestamp'' \<or> \<not> truthy_prop reportData ''cpu''
                           \<or> \<not> truthy_prop reportData ''memory'' \<or> \<not> truthy_prop reportData ''disk''
                           \<or> \<not> truthy_prop reportData ''network''
                           \<or> get_prop reportData ''uptime'' = None then (400, d)
                     else
                       (case replace_throws env of
                          Some message \<Rightarrow> (report_catch (exec_throws env) message, d)
                        | None \<Rightarrow>
                            (200, d\<lparr> metrics := (metrics d)(serverId \<mapsto> metrics_of reportData) \<rparr>)))))"

section \<open>\<^verbatim>\<open>ping_daemon.py\<close>: the route windows and \<^verbatim>\<open>data_writer\<close>\<close>
















section \<open>Scenarios\<close>

text \<open>
  An endpoint E, its row with a given status and notification time, a store holding that
  row and an enabled channel, and the environment of a check at second \<open>t\<close> in which the
  store answers.
\<close>

definition scenario_site :: site where
  "scenario_site = \<lparr> site_id = ''e'', site_url = ''https://e.example'', site_name = Some ''E'' \<rparr>"

definition scenario_row :: "string \<Rightarrow> int option \<Rightarrow> site_row" where
  "scenario_row st l =
     \<lparr> last_checked = Some 0, last_status = Some st, last_status_code = None,
       last_response_time_ms = None, last_notified_down_at = l \<rparr>"

definition scenario_channel :: "int \<Rightarrow> telegram_config option" where
  "scenario_channel enabled =
     Some \<lparr> bot_token = Some ''token'', chat_id = Some ''chat'', enable_notifications = Some enabled \<rparr>"

definition scenario_db :: "string \<Rightarrow> int option \<Rightarrow> db" where
  "scenario_db st l =
     \<lparr> monitored_sites = [''e'' \<mapsto> scenario_row st l], site_status_history = [],
       telegram_config_row = scenario_channel 1,
       servers = [''h'' \<mapsto> \<lparr> server_name = ''H'', api_key = ''key'',
                                server_last_notified_down_at = None \<rparr>],
       metrics = Map.empty \<rparr>"

definition scenario_env :: "int \<Rightarrow> fetch_outcome \<Rightarrow> check_env" where
  "scenario_env t r =
     \<lparr> select_throws = False, fetch_result = r, start_ms = t * 1000, fetched_ms = t * 1000 + 120,
       check_ms = t * 1000 + 125, batch_throws = False,
       dispatch = \<lparr> config_select_throws = False, telegram_result = Response 200 \<rparr> \<rparr>"

text \<open>
  A host H as the query of the host pass returns it, with a given notification time and
  time of last report, and the environment of a host pass at second \<open>t\<close> over given rows.
\<close>

definition scenario_host :: "int option \<Rightarrow> int option \<Rightarrow> server_result" where
  "scenario_host l rep =
     \<lparr> sr_id = ''h'', sr_name = ''H'', sr_last_notified_down_at = l, sr_last_report = rep \<rparr>"

definition scenario_vps_env :: "int \<Rightarrow> server_result list \<Rightarrow> vps_env" where
  "scenario_vps_env t rows =
     \<lparr> sites_query_throws = False, vps_config_throws = False, servers_query_throws = False,
       serversToCheck = rows,
       now_ms = t * 1000 + 7 \<rparr>"

text \<open>
  A report for host H: an object with the six required members, the timestamp and the
  uptime as given, and the environment of a request whose store operations succeed.
\<close>

definition scenario_report :: "rat \<Rightarrow> rat \<Rightarrow> json" where
  "scenario_report ts up =
     JObj [(''timestamp'', JNum ts),
           (''cpu'', JObj [(''usage_percent'', JNum 12)]),
           (''memory'', JObj [(''total'', JNum 1024)]),
           (''disk'', JObj [(''total'', JNum 2048)]),
           (''network'', JObj [(''upload_speed'', JNum 0)]),
           (''uptime'', JNum up)]"

definition scenario_report_env :: "json \<Rightarrow> report_env" where
  "scenario_report_env j =
     \<lparr> server_select_throws = None, body = Inr j, replace_throws = None, exec_throws = False \<rparr>"

section \<open>Properties of the endpoint engine\<close>

lemma check_sent: "sent (checkWebsiteStatus env s d) = fst (decision env s d)"
  by (simp add: checkWebsiteStatus_def Let_def split: prod.splits)

lemma check_update:
  "batch_update (checkWebsiteStatus env s d) =
     (site_id s, \<lparr> last_checked = Some (check_ms env div 1000), last_status = Some (fst (new_of env)),
         last_status_code = snd (new_of env), last_response_time_ms = Some (fetched_ms env - start_ms env),
         last_notified_down_at = snd (decision env s d) \<rparr>)"
  by (simp add: checkWebsiteStatus_def Let_def split: prod.splits)

lemma check_insert:
  "batch_insert (checkWebsiteStatus env s d) =
     \<lparr> h_site_id = site_id s, h_timestamp = check_ms env div 1000, h_status = fst (new_of env),
       h_status_code = snd (new_of env), h_response_time_ms = Some (fetched_ms env - start_ms env) \<rparr>"
  by (simp add: checkWebsiteStatus_def Let_def split: prod.splits)

lemma check_committed: "batch_committed (checkWebsiteStatus env s d) = (\<not> batch_throws env)"
  by (simp add: checkWebsiteStatus_def Let_def split: prod.splits)

lemma check_fetch_calls:
  "fetch_calls (checkWebsiteStatus env s d) =
     [\<lparr> req_url = site_url s, req_method = ''HEAD'', req_redirect = ''follow'', req_timeout_ms = 15000 \<rparr>]"
  by (simp add: checkWebsiteStatus_def Let_def split: prod.splits)

lemma check_db_after:
  "db_after (checkWebsiteStatus env s d) =
     db_batch (batch_throws env) (batch_update (checkWebsiteStatus env s d))
       (batch_insert (checkWebsiteStatus env s d)) d"
  by (simp add: checkWebsiteStatus_def Let_def split: prod.splits)

lemma failing_iff: "array_includes FAILING x \<longleftrightarrow> x = ''DOWN'' \<or> x = ''TIMEOUT'' \<or> x = ''ERROR''"
  by (auto simp: array_includes_def FAILING_def)

lemma classify_cases:
  "fst (classify r) = ''UP'' \<or> fst (classify r) = ''DOWN'' \<or> fst (classify r) = ''TIMEOUT'' \<or> fst (classify r) = ''ERROR''"
  by (simp add: classify_def split: fetch_outcome.splits)

lemma decide_first_failure:
  "array_includes FAILING new \<Longrightarrow> \<not> array_includes FAILING prev \<Longrightarrow>
   decide dn u prev l new c t = ([SiteDown dn new (code_or_none c) u], Some t)"
  by (simp add: decide_def)

lemma decide_repeat:
  "array_includes FAILING new \<Longrightarrow> array_includes FAILING prev \<Longrightarrow>
   decide dn u prev l new c t =
     (if shouldResend l t
      then ([SiteStillDown dn new (code_or_none c) u], Some t) else ([], l))"
  by (simp add: decide_def)

lemma shouldResend_iff:
  "shouldResend l t \<longleftrightarrow> l = None \<or> (\<exists>t0. l = Some t0 \<and> t - t0 > NOTIFICATION_INTERVAL_SECONDS)"
  by (auto simp: shouldResend_def split: option.splits)

lemma decide_recovery:
  "new = ''UP'' \<Longrightarrow> array_includes FAILING prev \<Longrightarrow>
   decide dn u prev l new c t = ([SiteRecovered dn u], None)"
  by (simp add: decide_def failing_iff)

lemma decide_quiet:
  "\<not> array_includes FAILING new \<Longrightarrow> \<not> array_includes FAILING prev \<Longrightarrow>
   decide dn u prev l new c t = ([], l)"
  by (simp add: decide_def)

lemma read_previous_row:
  "monitored_sites d i = Some r \<Longrightarrow>
   read_previous False d i = (or_else (last_status r) ''PENDING'', last_notified_down_at r)"
  by (simp add: read_previous_def)

lemma db_after_row:
  "\<not> batch_throws env \<Longrightarrow> monitored_sites d (site_id s) = Some r \<Longrightarrow>
   monitored_sites (db_after (checkWebsiteStatus env s d)) (site_id s)
     = Some (snd (batch_update (checkWebsiteStatus env s d)))"
  by (simp add: check_db_after db_batch_def check_update)

lemma db_after_row_throws:
  "batch_throws env \<Longrightarrow> db_after (checkWebsiteStatus env s d) = d"
  by (simp add: check_db_after db_batch_def)

lemma db_after_history:
  "\<not> batch_throws env \<Longrightarrow>
   site_status_history (db_after (checkWebsiteStatus env s d))
     = site_status_history d @ [batch_insert (checkWebsiteStatus env s d)]"
  by (simp add: check_db_after db_batch_def)

lemma failing_or_else:
  "array_includes FAILING prev \<Longrightarrow> or_else (Some prev) ''PENDING'' = prev"
  by (auto simp: or_else_def failing_iff)

lemma repeat_failure_step:
  assumes sel: "\<not> select_throws env"
      and row: "monitored_sites d (site_id s) = Some r"
      and prev: "last_status r = Some prev" "array_includes FAILING prev"
      and new: "array_includes FAILING (fst (classify (fetch_result env)))"
  shows "(sent (checkWebsiteStatus env s d) \<noteq> []) =
           (last_notified_down_at r = None \<or>
            (\<exists>t. last_notified_down_at r = Some t \<and> check_ms env div 1000 - t > NOTIFICATION_INTERVAL_SECONDS))"
    and "length (sent (checkWebsiteStatus env s d)) \<le> 1"
    and "sent (checkWebsiteStatus env s d) \<noteq> [] \<Longrightarrow>
           last_notified_down_at (snd (batch_update (checkWebsiteStatus env s d))) = Some (check_ms env div 1000)"
    and "sent (checkWebsiteStatus env s d) = [] \<Longrightarrow>
           last_notified_down_at (snd (batch_update (checkWebsiteStatus env s d))) = last_notified_down_at r"
proof -
  have rp: "prev_of env s d = (prev, last_notified_down_at r)"
    using sel row prev by (simp add: read_previous_row failing_or_else)
  have dec: "decision env s d =
     (if shouldResend (last_notified_down_at r) (check_ms env div 1000)
      then ([SiteStillDown (or_else (site_name s) (site_url s)) (fst (new_of env)) (code_or_none (snd (new_of env))) (site_url s)], Some (check_ms env div 1000))
      else ([], last_notified_down_at r))"
    using decide_repeat[OF new prev(2)] by (simp add: rp)
  show "(sent (checkWebsiteStatus env s d) \<noteq> []) =
           (last_notified_down_at r = None \<or>
            (\<exists>t. last_notified_down_at r = Some t \<and> check_ms env div 1000 - t > NOTIFICATION_INTERVAL_SECONDS))"
    by (simp add: check_sent dec shouldResend_iff)
  show "length (sent (checkWebsiteStatus env s d)) \<le> 1"
    by (simp add: check_sent dec)
  show "sent (checkWebsiteStatus env s d) \<noteq> [] \<Longrightarrow>
           last_notified_down_at (snd (batch_update (checkWebsiteStatus env s d))) = Some (check_ms env div 1000)"
    by (simp add: check_sent check_update dec split: if_splits)
  show "sent (checkWebsiteStatus env s d) = [] \<Longrightarrow>
           last_notified_down_at (snd (batch_update (checkWebsiteStatus env s d))) = last_notified_down_at r"
    by (simp add: check_sent check_update dec split: if_splits)
qed


lemma length_run_checks: "length (run_checks envs s d) = length envs"
  by (induction envs arbitrary: d) (simp_all add: Let_def)

lemma step_keeps_failing:
  assumes sel: "\<not> select_throws e" and new: "failing_check e"
      and row: "monitored_sites d (site_id s) = Some r"
      and prev: "last_status r = Some prev" "array_includes FAILING prev"
      and l: "last_notified_down_at r = Some t" "t0 \<le> t"
  shows "\<exists>r' prev' t'. monitored_sites (db_after (checkWebsiteStatus e s d)) (site_id s) = Some r'
            \<and> last_status r' = Some prev' \<and> array_includes FAILING prev'
            \<and> last_notified_down_at r' = Some t' \<and> t0 \<le> t'"
    and "sent (checkWebsiteStatus e s d) \<noteq> [] \<Longrightarrow> check_ms e div 1000 - t0 > NOTIFICATION_INTERVAL_SECONDS"
proof -
  have new': "array_includes FAILING (fst (classify (fetch_result e)))"
    using new by (simp add: failing_check_def)
  note st = repeat_failure_step[OF sel row prev new']
  show snd: "sent (checkWebsiteStatus e s d) \<noteq> [] \<Longrightarrow> check_ms e div 1000 - t0 > NOTIFICATION_INTERVAL_SECONDS"
    using st(1) l by auto
  show "\<exists>r' prev' t'. monitored_sites (db_after (checkWebsiteStatus e s d)) (site_id s) = Some r'
            \<and> last_status r' = Some prev' \<and> array_includes FAILING prev'
            \<and> last_notified_down_at r' = Some t' \<and> t0 \<le> t'"
  proof (cases "batch_throws e")
    case True
    then show ?thesis using row prev l by (simp add: db_after_row_throws)
  next
    case False
    have nn: "NOTIFICATION_INTERVAL_SECONDS \<ge> 0" by (simp add: NOTIFICATION_INTERVAL_SECONDS_def)
    show ?thesis
    proof (cases "sent (checkWebsiteStatus e s d) = []")
      case True
      then show ?thesis using db_after_row[OF False row] st(4) l new'
        by (simp add: check_update)
    next
      case False2: False
      then show ?thesis using db_after_row[OF False row] st(3) snd l new' nn
        by (simp add: check_update)
    qed
  qed
qed

lemma window_from:
  assumes "\<forall>e\<in>set envs. \<not> select_throws e \<and> failing_check e"
      and "monitored_sites d (site_id s) = Some r"
      and "last_status r = Some prev" "array_includes FAILING prev"
      and "last_notified_down_at r = Some t" "t0 \<le> t"
  shows "\<forall>out\<in>set (run_checks envs s d).
           sent out \<noteq> [] \<longrightarrow> h_timestamp (batch_insert out) - t0 > NOTIFICATION_INTERVAL_SECONDS"
  using assms
proof (induction envs arbitrary: d r prev t)
  case Nil
  then show ?case by simp
next
  case (Cons e es)
  have e: "\<not> select_throws e" "failing_check e" using Cons.prems(1) by simp_all
  from step_keeps_failing(1)[OF e Cons.prems(2-6)]
  obtain r' prev' t' where n:
    "monitored_sites (db_after (checkWebsiteStatus e s d)) (site_id s) = Some r'"
    "last_status r' = Some prev'" "array_includes FAILING prev'"
    "last_notified_down_at r' = Some t'" "t0 \<le> t'" by blast
  have rest: "\<forall>out\<in>set (run_checks es s (db_after (checkWebsiteStatus e s d))).
           sent out \<noteq> [] \<longrightarrow> h_timestamp (batch_insert out) - t0 > NOTIFICATION_INTERVAL_SECONDS"
    using Cons.IH[OF _ n] Cons.prems(1) by simp
  have hd: "sent (checkWebsiteStatus e s d) \<noteq> [] \<longrightarrow>
        h_timestamp (batch_insert (checkWebsiteStatus e s d)) - t0 > NOTIFICATION_INTERVAL_SECONDS"
    using step_keeps_failing(2)[OF e Cons.prems(2-6)] by (simp add: check_insert)
  show ?case using hd rest by (simp add: Let_def)
qed

lemma window_pairs:
  assumes "\<forall>e\<in>set envs. \<not> select_throws e \<and> \<not> batch_throws e \<and> failing_check e"
      and "monitored_sites d (site_id s) = Some r"
  shows "\<forall>i j. i < j \<and> j < length envs
            \<and> sent (run_checks envs s d ! i) \<noteq> [] \<and> sent (run_checks envs s d ! j) \<noteq> []
          \<longrightarrow> h_timestamp (batch_insert (run_checks envs s d ! j))
                - h_timestamp (batch_insert (run_checks envs s d ! i)) > NOTIFICATION_INTERVAL_SECONDS"
  using assms
proof (induction envs arbitrary: d r)
  case Nil
  then show ?case by simp
next
  case (Cons e es)
  let ?out = "checkWebsiteStatus e s d"
  let ?d' = "db_after ?out"
  have e: "\<not> select_throws e" "\<not> batch_throws e" "failing_check e" using Cons.prems(1) by simp_all
  have row': "monitored_sites ?d' (site_id s) = Some (snd (batch_update ?out))"
    using db_after_row[OF e(2) Cons.prems(2)] .
  have IH: "\<forall>i j. i < j \<and> j < length es
            \<and> sent (run_checks es s ?d' ! i) \<noteq> [] \<and> sent (run_checks es s ?d' ! j) \<noteq> []
          \<longrightarrow> h_timestamp (batch_insert (run_checks es s ?d' ! j))
                - h_timestamp (batch_insert (run_checks es s ?d' ! i)) > NOTIFICATION_INTERVAL_SECONDS"
    using Cons.IH[OF _ row'] Cons.prems(1) by simp
  show ?case
  proof (intro allI impI)
    fix i j
    assume a: "i < j \<and> j < length (e # es)
            \<and> sent (run_checks (e # es) s d ! i) \<noteq> [] \<and> sent (run_checks (e # es) s d ! j) \<noteq> []"
    then obtain j' where j: "j = Suc j'" by (cases j) auto
    have j'len: "j' < length es" using a j by simp
    have oj: "run_checks (e # es) s d ! j = run_checks es s ?d' ! j'" using j by (simp add: Let_def)
    show "h_timestamp (batch_insert (run_checks (e # es) s d ! j))
                - h_timestamp (batch_insert (run_checks (e # es) s d ! i)) > NOTIFICATION_INTERVAL_SECONDS"
    proof (cases i)
      case 0
      have s0: "sent ?out \<noteq> []" using a 0 by (simp add: Let_def)
      have new': "array_includes FAILING (fst (classify (fetch_result e)))"
        using e(3) by (simp add: failing_check_def)
      have dec: "snd (decision e s d) = Some (check_ms e div 1000)"
      proof (cases "array_includes FAILING (fst (prev_of e s d))")
        case True
        then show ?thesis using s0 decide_repeat[OF new' True] by (simp add: check_sent split: if_splits)
      next
        case False
        then show ?thesis using decide_first_failure[OF new' False] by simp
      qed
      have r1: "last_status (snd (batch_update ?out)) = Some (fst (classify (fetch_result e)))"
        and r2: "last_notified_down_at (snd (batch_update ?out)) = Some (check_ms e div 1000)"
        using dec by (simp_all add: check_update)
      have es: "\<forall>e\<in>set es. \<not> select_throws e \<and> failing_check e" using Cons.prems(1) by simp
      have mem: "run_checks es s ?d' ! j' \<in> set (run_checks es s ?d')"
        using j'len by (simp add: length_run_checks)
      have "sent (run_checks es s ?d' ! j') \<noteq> []" using a oj by simp
      then have "h_timestamp (batch_insert (run_checks es s ?d' ! j')) - check_ms e div 1000
                   > NOTIFICATION_INTERVAL_SECONDS"
        using window_from[OF es row' r1 new' r2 order_refl] mem by blast
      then show ?thesis using 0 oj by (simp add: Let_def check_insert)
    next
      case (Suc i')
      then show ?thesis using a j IH oj by (simp add: Let_def)
    qed
  qed
qed

lemma decide_lnda:
  "snd (decide dn u prev l new c t) =
     (if list_ex is_down_notice (fst (decide dn u prev l new c t)) then Some t
      else if list_ex is_recovery_notice (fst (decide dn u prev l new c t)) then None
      else l)"
  by (simp add: decide_def)

lemma update_lnda:
  "last_notified_down_at (snd (batch_update (checkWebsiteStatus e s d))) =
     (if notified_down (checkWebsiteStatus e s d) then Some (check_ms e div 1000)
      else if list_ex is_recovery_notice (sent (checkWebsiteStatus e s d)) then None
      else snd (prev_of e s d))"
  unfolding notified_down_def check_sent check_update
  by (simp add: decide_lnda[symmetric])

lemma current_run_snoc_uncommitted:
  "\<not> batch_committed out \<Longrightarrow> current_run (tr @ [out]) = current_run tr"
  by (simp add: current_run_def)

lemma current_run_snoc_committed:
  "batch_committed out \<Longrightarrow>
   current_run (tr @ [out]) =
     (if array_includes FAILING (h_status (batch_insert out)) then out # current_run tr else [])"
  by (simp add: current_run_def)

lemma run_notified_last_failing:
  assumes "run_notified tr"
  shows "filter batch_committed tr \<noteq> [] \<and>
         array_includes FAILING (h_status (batch_insert (last (filter batch_committed tr))))"
proof -
  let ?c = "filter batch_committed tr"
  from assms have ne: "current_run tr \<noteq> []" by (auto simp: run_notified_def list_ex_iff)
  then have c: "?c \<noteq> []" by (auto simp: current_run_def)
  then have "rev ?c = last ?c # rev (butlast ?c)"
    by (metis append_butlast_last_id rev.simps(2) rev_swap)
  with ne show ?thesis using c by (auto simp: current_run_def split: if_splits)
qed

lemma engine_inv_step:
  assumes inv: "engine_inv s d tr"
  shows "engine_inv s (db_after (checkWebsiteStatus e s d)) (tr @ [checkWebsiteStatus e s d])"
proof -
  let ?out = "checkWebsiteStatus e s d"
  from inv obtain r where row: "monitored_sites d (site_id s) = Some r"
    and n: "last_notified_down_at r \<noteq> None \<longrightarrow> run_notified tr"
    and st: "filter batch_committed tr \<noteq> [] \<longrightarrow>
             last_status r = Some (h_status (batch_insert (last (filter batch_committed tr))))"
    by (auto simp: engine_inv_def split: option.splits)
  show ?thesis
  proof (cases "batch_throws e")
    case True
    then have nc: "\<not> batch_committed ?out" by (simp add: check_committed)
    have "run_notified (tr @ [?out]) = run_notified tr"
      using nc by (simp add: run_notified_def current_run_snoc_uncommitted)
    moreover have "filter batch_committed (tr @ [?out]) = filter batch_committed tr"
      using nc by simp
    ultimately show ?thesis using True row n st
      by (simp add: engine_inv_def db_after_row_throws)
  next
    case False
    then have com: "batch_committed ?out" by (simp add: check_committed)
    have row': "monitored_sites (db_after ?out) (site_id s) = Some (snd (batch_update ?out))"
      using db_after_row[OF False row] .
    have hs: "h_status (batch_insert ?out) = fst (new_of e)" by (simp add: check_insert)
    have ls: "last_status (snd (batch_update ?out)) = Some (fst (new_of e))" by (simp add: check_update)
    have part2: "last_status (snd (batch_update ?out))
                   = Some (h_status (batch_insert (last (filter batch_committed (tr @ [?out])))))"
      using com ls hs by simp
    have part1: "last_notified_down_at (snd (batch_update ?out)) \<noteq> None \<longrightarrow> run_notified (tr @ [?out])"
    proof
      assume nn: "last_notified_down_at (snd (batch_update ?out)) \<noteq> None"
      show "run_notified (tr @ [?out])"
      proof (cases "notified_down ?out")
        case True
        then have "array_includes FAILING (fst (new_of e))"
          by (auto simp: notified_down_def check_sent decide_def split: if_splits)
        then show ?thesis using True com hs
          by (simp add: run_notified_def current_run_snoc_committed)
      next
        case nd: False
        from nn nd have keep: "snd (prev_of e s d) \<noteq> None"
          and norec: "\<not> list_ex is_recovery_notice (sent ?out)"
          by (auto simp: update_lnda split: if_splits)
        from keep have sel: "\<not> select_throws e" by (auto simp: read_previous_def)
        then have rp: "prev_of e s d = (or_else (last_status r) ''PENDING'', last_notified_down_at r)"
          using row by (simp add: read_previous_row)
        with keep have "last_notified_down_at r \<noteq> None" by simp
        with n have rn: "run_notified tr" by simp
        from run_notified_last_failing[OF rn] st
        obtain p where p: "last_status r = Some p" "array_includes FAILING p" by auto
        then have prevf: "array_includes FAILING (fst (prev_of e s d))"
          by (simp add: rp failing_or_else)
        have newf: "array_includes FAILING (fst (new_of e))"
        proof (rule ccontr)
          assume nf: "\<not> array_includes FAILING (fst (new_of e))"
          then have "fst (new_of e) = ''UP''" using classify_cases[of "fetch_result e"]
            by (auto simp: failing_iff)
          then have "sent ?out = [SiteRecovered (or_else (site_name s) (site_url s)) (site_url s)]"
            using decide_recovery[OF _ prevf] by (simp add: check_sent)
          with norec show False by simp
        qed
        then show ?thesis using rn com hs
          by (simp add: run_notified_def current_run_snoc_committed)
      qed
    qed
    show ?thesis using row' part1 part2 by (simp add: engine_inv_def)
  qed
qed

lemma engine_inv_run:
  "engine_inv s d tr \<Longrightarrow> engine_inv s (final_db envs s d) (tr @ run_checks envs s d)"
proof (induction envs arbitrary: d tr)
  case Nil
  then show ?case by simp
next
  case (Cons e es)
  from Cons.IH[OF engine_inv_step[OF Cons.prems, of e]]
  show ?case by (simp add: Let_def)
qed

lemma engine_inv_init:
  "monitored_sites d (site_id s) = Some r \<Longrightarrow> last_notified_down_at r = None \<Longrightarrow> engine_inv s d []"
  by (simp add: engine_inv_def)

section \<open>The claims about the endpoint engine\<close>

lemmas scenario_defs =
  scenario_site_def scenario_row_def scenario_db_def scenario_env_def scenario_channel_def

lemmas decision_defs =
  read_previous_def classify_def decide_def or_else_def array_includes_def FAILING_def
  response_ok_def code_or_none_def NOTIFICATION_INTERVAL_SECONDS_def shouldResend_def

lemmas engine_defs =
  checkWebsiteStatus_def read_previous_def classify_def decide_def or_else_def array_includes_def
  FAILING_def response_ok_def code_or_none_def NOTIFICATION_INTERVAL_SECONDS_def shouldResend_def
  db_batch_def failing_check_def sendTelegramNotification_def config_enabled_def truthy_int_def
  truthy_str_def the_default_def

lemma read_previous_throws: "read_previous True d i = (''PENDING'', None)"
  by (simp add: read_previous_def)

lemma pending_not_failing: "\<not> array_includes FAILING ''PENDING''"
  by (simp add: failing_iff)

text \<open>
  C1, as amended. A check whose read of the persisted row succeeds, that finds the
  persisted previous status in FAILING and classifies the probe as FAILING, sends a message
  exactly when the stored \<^verbatim>\<open>last_notified_down_at\<close> is null or more than
  \<^verbatim>\<open>NOTIFICATION_INTERVAL_SECONDS\<close> (3600) before the check time; it sends at most one; when
  it sends, the value it writes for \<^verbatim>\<open>last_notified_down_at\<close> is the check time, otherwise
  the stored value; the batch, when it commits, stores that row. Over consecutive failing
  checks whose reads and batches all succeed, any two checks that both send are more than
  3600 seconds apart. A check whose read throws falls back to \<^verbatim>\<open>'PENDING'\<close> and, on a
  failing probe, sends the "down" message of a first failure and writes the check time; a
  check whose batch throws leaves the store as it was.
\<close>

theorem C1_repeated_failure_cooldown:
  assumes "\<not> select_throws env"
      and "monitored_sites d (site_id s) = Some r"
      and "last_status r = Some prev"
      and "array_includes FAILING prev"
      and "failing_check env"
      and "\<forall>e\<in>set envs. \<not> select_throws e \<and> \<not> batch_throws e \<and> failing_check e"
  shows "NOTIFICATION_INTERVAL_SECONDS = 3600 \<and>
         ((sent (checkWebsiteStatus env s d) \<noteq> []) =
            (last_notified_down_at r = None \<or>
             (\<exists>t. last_notified_down_at r = Some t \<and>
                  check_ms env div 1000 - t > NOTIFICATION_INTERVAL_SECONDS))) \<and>
         length (sent (checkWebsiteStatus env s d)) \<le> 1 \<and>
         (sent (checkWebsiteStatus env s d) \<noteq> [] \<longrightarrow>
            last_notified_down_at (snd (batch_update (checkWebsiteStatus env s d)))
              = Some (check_ms env div 1000)) \<and>
         (sent (checkWebsiteStatus env s d) = [] \<longrightarrow>
            last_notified_down_at (snd (batch_update (checkWebsiteStatus env s d)))
              = last_notified_down_at r) \<and>
         (\<not> batch_throws env \<longrightarrow>
            monitored_sites (db_after (checkWebsiteStatus env s d)) (site_id s)
              = Some (snd (batch_update (checkWebsiteStatus env s d)))) \<and>
         (\<forall>i j. i < j \<and> j < length envs
                \<and> sent (run_checks envs s d ! i) \<noteq> [] \<and> sent (run_checks envs s d ! j) \<noteq> []
              \<longrightarrow> h_timestamp (batch_insert (run_checks envs s d ! j))
                    - h_timestamp (batch_insert (run_checks envs s d ! i))
                    > NOTIFICATION_INTERVAL_SECONDS) \<and>
         (\<forall>e. select_throws e \<and> failing_check e \<longrightarrow>
            sent (checkWebsiteStatus e s d)
              = [SiteDown (or_else (site_name s) (site_url s)) (fst (classify (fetch_result e)))
                   (code_or_none (snd (classify (fetch_result e)))) (site_url s)] \<and>
            last_notified_down_at (snd (batch_update (checkWebsiteStatus e s d)))
              = Some (check_ms e div 1000)) \<and>
         (\<forall>e. batch_throws e \<longrightarrow> db_after (checkWebsiteStatus e s d) = d)"
proof -
  have new: "array_includes FAILING (fst (classify (fetch_result env)))"
    using assms(5) by (simp add: failing_check_def)
  note st = repeat_failure_step[OF assms(1-4) new]
  have a: "NOTIFICATION_INTERVAL_SECONDS = 3600" by (simp add: NOTIFICATION_INTERVAL_SECONDS_def)
  have b: "sent (checkWebsiteStatus env s d) \<noteq> [] \<longrightarrow>
            last_notified_down_at (snd (batch_update (checkWebsiteStatus env s d)))
              = Some (check_ms env div 1000)" using st(3) by blast
  have c: "sent (checkWebsiteStatus env s d) = [] \<longrightarrow>
            last_notified_down_at (snd (batch_update (checkWebsiteStatus env s d)))
              = last_notified_down_at r" using st(4) by blast
  have f: "\<not> batch_throws env \<longrightarrow>
            monitored_sites (db_after (checkWebsiteStatus env s d)) (site_id s)
              = Some (snd (batch_update (checkWebsiteStatus env s d)))"
    using db_after_row[OF _ assms(2)] by blast
  have g: "\<forall>e. select_throws e \<and> failing_check e \<longrightarrow>
            sent (checkWebsiteStatus e s d)
              = [SiteDown (or_else (site_name s) (site_url s)) (fst (classify (fetch_result e)))
                   (code_or_none (snd (classify (fetch_result e)))) (site_url s)] \<and>
            last_notified_down_at (snd (batch_update (checkWebsiteStatus e s d)))
              = Some (check_ms e div 1000)"
  proof (intro allI impI)
    fix e
    assume h: "select_throws e \<and> failing_check e"
    then have fl: "array_includes FAILING (fst (classify (fetch_result e)))"
      by (simp add: failing_check_def)
    have rp: "prev_of e s d = (''PENDING'', None)" using h by (simp add: read_previous_throws)
    have "decision e s d =
            ([SiteDown (or_else (site_name s) (site_url s)) (fst (classify (fetch_result e)))
                (code_or_none (snd (classify (fetch_result e)))) (site_url s)],
             Some (check_ms e div 1000))"
      using decide_first_failure[OF fl pending_not_failing] by (simp add: rp)
    then show "sent (checkWebsiteStatus e s d)
              = [SiteDown (or_else (site_name s) (site_url s)) (fst (classify (fetch_result e)))
                   (code_or_none (snd (classify (fetch_result e)))) (site_url s)] \<and>
            last_notified_down_at (snd (batch_update (checkWebsiteStatus e s d)))
              = Some (check_ms e div 1000)"
      by (simp add: check_sent check_update)
  qed
  have k: "\<forall>e. batch_throws e \<longrightarrow> db_after (checkWebsiteStatus e s d) = d"
    using db_after_row_throws by blast
  show ?thesis
    by (intro conjI a st(1) st(2) b c f window_pairs[OF assms(6) assms(2)] g k)
qed

text \<open>
  Scenario B: E is DOWN and was notified at second 0. The check at second 1800 sends
  nothing and keeps the notification time; of the checks at seconds 1800 and 3700 only
  the second sends, and it writes 3700.
\<close>

theorem C1_repeated_failure_cooldown_witness:
  "sent (checkWebsiteStatus (scenario_env 1800 (Response 500)) scenario_site
           (scenario_db ''DOWN'' (Some 0))) = [] \<and>
   last_notified_down_at (snd (batch_update
      (checkWebsiteStatus (scenario_env 1800 (Response 500)) scenario_site
         (scenario_db ''DOWN'' (Some 0))))) = Some 0 \<and>
   map (\<lambda>out. (length (sent out), last_notified_down_at (snd (batch_update out))))
     (run_checks [scenario_env 1800 (Response 500), scenario_env 3700 (Response 500)]
        scenario_site (scenario_db ''DOWN'' (Some 0)))
     = [(0, Some 0), (1, Some 3700)]"
proof -
  have h1: "\<not> select_throws (scenario_env 1800 (Response 500))"
    by (simp add: scenario_defs)
  have h2: "monitored_sites (scenario_db ''DOWN'' (Some 0)) (site_id scenario_site)
              = Some (scenario_row ''DOWN'' (Some 0))"
    by (simp add: scenario_defs)
  have h3: "last_status (scenario_row ''DOWN'' (Some 0)) = Some ''DOWN''"
    by (simp add: scenario_defs)
  have h4: "array_includes FAILING ''DOWN''"
    by (simp add: array_includes_def FAILING_def)
  have h5: "failing_check (scenario_env 1800 (Response 500))"
    by (simp add: scenario_defs engine_defs)
  have h6: "\<forall>e\<in>set [scenario_env 1800 (Response 500), scenario_env 3700 (Response 500)].
              \<not> select_throws e \<and> \<not> batch_throws e \<and> failing_check e"
    by (simp add: scenario_defs engine_defs)
  have l: "last_notified_down_at (scenario_row ''DOWN'' (Some 0)) = Some 0"
    by (simp add: scenario_defs)
  have cm: "check_ms (scenario_env 1800 (Response 500)) div 1000 = 1800"
    by (simp add: scenario_env_def)
  note inst = C1_repeated_failure_cooldown[OF h1 h2 h3 h4 h5 h6]
  have nis: "NOTIFICATION_INTERVAL_SECONDS = 3600" by (rule inst[THEN conjunct1])
  have eq: "(sent (checkWebsiteStatus (scenario_env 1800 (Response 500)) scenario_site
           (scenario_db ''DOWN'' (Some 0))) \<noteq> []) =
      (last_notified_down_at (scenario_row ''DOWN'' (Some 0)) = None \<or>
       (\<exists>t. last_notified_down_at (scenario_row ''DOWN'' (Some 0)) = Some t \<and>
          check_ms (scenario_env 1800 (Response 500)) div 1000 - t > NOTIFICATION_INTERVAL_SECONDS))"
    by (rule inst[THEN conjunct2, THEN conjunct1])
  have a: "sent (checkWebsiteStatus (scenario_env 1800 (Response 500)) scenario_site
           (scenario_db ''DOWN'' (Some 0))) = []"
    using eq by (simp add: l cm nis)
  have "sent (checkWebsiteStatus (scenario_env 1800 (Response 500)) scenario_site
           (scenario_db ''DOWN'' (Some 0))) = [] \<longrightarrow>
        last_notified_down_at (snd (batch_update
      (checkWebsiteStatus (scenario_env 1800 (Response 500)) scenario_site
         (scenario_db ''DOWN'' (Some 0))))) = last_notified_down_at (scenario_row ''DOWN'' (Some 0))"
    by (rule inst[THEN conjunct2, THEN conjunct2, THEN conjunct2, THEN conjunct2, THEN conjunct1])
  with a l have b: "last_notified_down_at (snd (batch_update
      (checkWebsiteStatus (scenario_env 1800 (Response 500)) scenario_site
         (scenario_db ''DOWN'' (Some 0))))) = Some 0" by simp
  have c: "map (\<lambda>out. (length (sent out), last_notified_down_at (snd (batch_update out))))
     (run_checks [scenario_env 1800 (Response 500), scenario_env 3700 (Response 500)]
        scenario_site (scenario_db ''DOWN'' (Some 0)))
     = [(0, Some 0), (1, Some 3700)]"
    by (simp add: scenario_defs engine_defs Let_def)
  from a b c show ?thesis by blast
qed

text \<open>
  The claim as stated fails where the store fails. E is DOWN and was notified at second 0.
  When the read throws at second 1800, within the hour, the check sends a "down" message
  and writes 1800. When every batch throws, the checks at seconds 3700, 3760 and 3820 each
  send a message, three within two minutes.
\<close>

theorem C1_repeated_failure_cooldown_counterexample:
  "monitored_sites (scenario_db ''DOWN'' (Some 0)) (site_id scenario_site)
     = Some (scenario_row ''DOWN'' (Some 0)) \<and>
   last_status (scenario_row ''DOWN'' (Some 0)) = Some ''DOWN'' \<and>
   last_notified_down_at (scenario_row ''DOWN'' (Some 0)) = Some 0 \<and>
   array_includes FAILING ''DOWN'' \<and>
   failing_check ((scenario_env 1800 (Response 500))\<lparr> select_throws := True \<rparr>) \<and>
   \<not> check_ms ((scenario_env 1800 (Response 500))\<lparr> select_throws := True \<rparr>) div 1000 - 0
       > NOTIFICATION_INTERVAL_SECONDS \<and>
   sent (checkWebsiteStatus ((scenario_env 1800 (Response 500))\<lparr> select_throws := True \<rparr>)
           scenario_site (scenario_db ''DOWN'' (Some 0)))
     = [SiteDown ''E'' ''DOWN'' (Some 500) ''https://e.example''] \<and>
   last_notified_down_at (snd (batch_update
      (checkWebsiteStatus ((scenario_env 1800 (Response 500))\<lparr> select_throws := True \<rparr>)
           scenario_site (scenario_db ''DOWN'' (Some 0))))) = Some 1800 \<and>
   map (length \<circ> sent)
     (run_checks [(scenario_env 3700 (Response 500))\<lparr> batch_throws := True \<rparr>,
                  (scenario_env 3760 (Response 500))\<lparr> batch_throws := True \<rparr>,
                  (scenario_env 3820 (Response 500))\<lparr> batch_throws := True \<rparr>]
        scenario_site (scenario_db ''DOWN'' (Some 0))) = [1, 1, 1] \<and>
   map (h_timestamp \<circ> batch_insert)
     (run_checks [(scenario_env 3700 (Response 500))\<lparr> batch_throws := True \<rparr>,
                  (scenario_env 3760 (Response 500))\<lparr> batch_throws := True \<rparr>,
                  (scenario_env 3820 (Response 500))\<lparr> batch_throws := True \<rparr>]
        scenario_site (scenario_db ''DOWN'' (Some 0))) = [3700, 3760, 3820]"
proof -
  have a: "monitored_sites (scenario_db ''DOWN'' (Some 0)) (site_id scenario_site)
     = Some (scenario_row ''DOWN'' (Some 0))"
    and b: "last_status (scenario_row ''DOWN'' (Some 0)) = Some ''DOWN''"
    and c: "last_notified_down_at (scenario_row ''DOWN'' (Some 0)) = Some 0"
    by (simp_all add: scenario_defs)
  have d: "array_includes FAILING ''DOWN''" by (simp add: failing_iff)
  have e: "failing_check ((scenario_env 1800 (Response 500))\<lparr> select_throws := True \<rparr>)"
    by (simp add: scenario_defs failing_check_def classify_def response_ok_def failing_iff)
  have f: "\<not> check_ms ((scenario_env 1800 (Response 500))\<lparr> select_throws := True \<rparr>) div 1000 - 0
       > NOTIFICATION_INTERVAL_SECONDS"
    by (simp add: scenario_defs NOTIFICATION_INTERVAL_SECONDS_def)
  have g: "sent (checkWebsiteStatus ((scenario_env 1800 (Response 500))\<lparr> select_throws := True \<rparr>)
           scenario_site (scenario_db ''DOWN'' (Some 0)))
     = [SiteDown ''E'' ''DOWN'' (Some 500) ''https://e.example'']"
    by (simp add: check_sent scenario_defs decision_defs)
  have h: "last_notified_down_at (snd (batch_update
      (checkWebsiteStatus ((scenario_env 1800 (Response 500))\<lparr> select_throws := True \<rparr>)
           scenario_site (scenario_db ''DOWN'' (Some 0))))) = Some 1800"
    by (simp add: check_update scenario_defs decision_defs)
  have i: "map (length \<circ> sent)
     (run_checks [(scenario_env 3700 (Response 500))\<lparr> batch_throws := True \<rparr>,
                  (scenario_env 3760 (Response 500))\<lparr> batch_throws := True \<rparr>,
                  (scenario_env 3820 (Response 500))\<lparr> batch_throws := True \<rparr>]
        scenario_site (scenario_db ''DOWN'' (Some 0))) = [1, 1, 1]"
    by (simp add: scenario_defs engine_defs Let_def)
  have j: "map (h_timestamp \<circ> batch_insert)
     (run_checks [(scenario_env 3700 (Response 500))\<lparr> batch_throws := True \<rparr>,
                  (scenario_env 3760 (Response 500))\<lparr> batch_throws := True \<rparr>,
                  (scenario_env 3820 (Response 500))\<lparr> batch_throws := True \<rparr>]
        scenario_site (scenario_db ''DOWN'' (Some 0))) = [3700, 3760, 3820]"
    by (simp add: scenario_defs engine_defs Let_def)
  show ?thesis by (intro conjI a b c d e f g h i j)
qed

text \<open>
  C2. A check that reads a previous status outside FAILING (\<^verbatim>\<open>'PENDING'\<close>, \<^verbatim>\<open>'UP'\<close>, or
  the default when there is no row) and classifies the probe as FAILING sends exactly one
  "down" message, whatever the stored notification time, and writes the check time to
  \<^verbatim>\<open>last_notified_down_at\<close>; the committed batch stores it.
\<close>

theorem C2_first_failure_notifies:
  assumes "\<not> array_includes FAILING (fst (read_previous (select_throws env) d (site_id s)))"
      and "failing_check env"
  shows "\<not> array_includes FAILING ''PENDING'' \<and> \<not> array_includes FAILING ''UP'' \<and>
         sent (checkWebsiteStatus env s d)
           = [SiteDown (or_else (site_name s) (site_url s)) (fst (classify (fetch_result env)))
                (code_or_none (snd (classify (fetch_result env)))) (site_url s)] \<and>
         last_notified_down_at (snd (batch_update (checkWebsiteStatus env s d)))
           = Some (check_ms env div 1000) \<and>
         (\<forall>r. \<not> batch_throws env \<and> monitored_sites d (site_id s) = Some r \<longrightarrow>
            (\<exists>r'. monitored_sites (db_after (checkWebsiteStatus env s d)) (site_id s) = Some r'
                  \<and> last_notified_down_at r' = Some (check_ms env div 1000)))"
proof -
  have new: "array_includes FAILING (fst (classify (fetch_result env)))"
    using assms(2) by (simp add: failing_check_def)
  note dec = decide_first_failure[OF new assms(1)]
  have a: "sent (checkWebsiteStatus env s d)
           = [SiteDown (or_else (site_name s) (site_url s)) (fst (classify (fetch_result env)))
                (code_or_none (snd (classify (fetch_result env)))) (site_url s)]"
    by (simp add: check_sent dec)
  have b: "last_notified_down_at (snd (batch_update (checkWebsiteStatus env s d)))
           = Some (check_ms env div 1000)"
    by (simp add: check_update dec)
  have c: "\<forall>r. \<not> batch_throws env \<and> monitored_sites d (site_id s) = Some r \<longrightarrow>
            (\<exists>r'. monitored_sites (db_after (checkWebsiteStatus env s d)) (site_id s) = Some r'
                  \<and> last_notified_down_at r' = Some (check_ms env div 1000))"
    using db_after_row b by blast
  have d: "\<not> array_includes FAILING ''PENDING'' \<and> \<not> array_includes FAILING ''UP''"
    by (simp add: failing_iff)
  from a b c d show ?thesis by blast
qed

text \<open>Scenario A, third check: E was UP and answers 500 at second 100.\<close>

theorem C2_first_failure_notifies_witness:
  "sent (checkWebsiteStatus (scenario_env 100 (Response 500)) scenario_site (scenario_db ''UP'' None))
     = [SiteDown ''E'' ''DOWN'' (Some 500) ''https://e.example''] \<and>
   last_notified_down_at (snd (batch_update
     (checkWebsiteStatus (scenario_env 100 (Response 500)) scenario_site (scenario_db ''UP'' None))))
     = Some 100"
proof -
  have h1: "\<not> array_includes FAILING (fst (read_previous (select_throws (scenario_env 100 (Response 500)))
              (scenario_db ''UP'' None) (site_id scenario_site)))"
    by (simp add: scenario_defs read_previous_def or_else_def failing_iff)
  have h2: "failing_check (scenario_env 100 (Response 500))"
    by (simp add: scenario_defs failing_check_def classify_def response_ok_def failing_iff)
  have v: "or_else (site_name scenario_site) ''https://e.example'' = ''E''"
       "site_url scenario_site = ''https://e.example''"
       "classify (fetch_result (scenario_env 100 (Response 500))) = (''DOWN'', Some 500)"
       "check_ms (scenario_env 100 (Response 500)) div 1000 = 100"
    by (simp_all add: scenario_defs or_else_def classify_def response_ok_def)
  from C2_first_failure_notifies[OF h1 h2] show ?thesis
    by (simp add: v code_or_none_def)
qed

text \<open>
  C3, as amended. A check whose read of the persisted row succeeds, that finds the
  persisted previous status in FAILING and classifies the probe as \<^verbatim>\<open>'UP'\<close>, sends exactly
  one recovery message and writes null to \<^verbatim>\<open>last_notified_down_at\<close>, whatever the stored
  notification time and the history; the batch, when it commits, stores the null together
  with the status \<^verbatim>\<open>'UP'\<close>. A check whose read throws falls back to \<^verbatim>\<open>'PENDING'\<close>: on an
  \<^verbatim>\<open>'UP'\<close> probe it sends nothing and still writes the status \<^verbatim>\<open>'UP'\<close> and a null
  \<^verbatim>\<open>last_notified_down_at\<close>.
\<close>

theorem C3_recovery_clears:
  assumes "\<not> select_throws env"
      and "monitored_sites d (site_id s) = Some r"
      and "last_status r = Some prev"
      and "array_includes FAILING prev"
      and "fst (classify (fetch_result env)) = ''UP''"
  shows "sent (checkWebsiteStatus env s d)
           = [SiteRecovered (or_else (site_name s) (site_url s)) (site_url s)] \<and>
         last_notified_down_at (snd (batch_update (checkWebsiteStatus env s d))) = None \<and>
         (\<not> batch_throws env \<longrightarrow>
            (\<exists>r'. monitored_sites (db_after (checkWebsiteStatus env s d)) (site_id s) = Some r'
                  \<and> last_notified_down_at r' = None \<and> last_status r' = Some ''UP'')) \<and>
         (\<forall>e. select_throws e \<and> fst (classify (fetch_result e)) = ''UP'' \<longrightarrow>
            sent (checkWebsiteStatus e s d) = [] \<and>
            last_status (snd (batch_update (checkWebsiteStatus e s d))) = Some ''UP'' \<and>
            last_notified_down_at (snd (batch_update (checkWebsiteStatus e s d))) = None)"
proof -
  have t: "\<forall>e. select_throws e \<and> fst (classify (fetch_result e)) = ''UP'' \<longrightarrow>
            sent (checkWebsiteStatus e s d) = [] \<and>
            last_status (snd (batch_update (checkWebsiteStatus e s d))) = Some ''UP'' \<and>
            last_notified_down_at (snd (batch_update (checkWebsiteStatus e s d))) = None"
  proof (intro allI impI)
    fix e :: check_env
    assume h: "select_throws e \<and> fst (classify (fetch_result e)) = ''UP''"
    have rp: "prev_of e s d = (''PENDING'', None)" using h by (simp add: read_previous_throws)
    have nf: "\<not> array_includes FAILING (fst (classify (fetch_result e)))"
      using h by (simp add: failing_iff)
    have "decision e s d = ([], None)"
      using decide_quiet[OF nf pending_not_failing] by (simp add: rp)
    then show "sent (checkWebsiteStatus e s d) = [] \<and>
            last_status (snd (batch_update (checkWebsiteStatus e s d))) = Some ''UP'' \<and>
            last_notified_down_at (snd (batch_update (checkWebsiteStatus e s d))) = None"
      using h by (simp add: check_sent check_update)
  qed
  have rp: "prev_of env s d = (prev, last_notified_down_at r)"
    using assms(1-4) by (simp add: read_previous_row failing_or_else)
  have dec: "decision env s d = ([SiteRecovered (or_else (site_name s) (site_url s)) (site_url s)], None)"
    using decide_recovery[OF assms(5) assms(4)] by (simp add: rp)
  have a: "sent (checkWebsiteStatus env s d)
           = [SiteRecovered (or_else (site_name s) (site_url s)) (site_url s)]"
    by (simp add: check_sent dec)
  have b: "last_notified_down_at (snd (batch_update (checkWebsiteStatus env s d))) = None"
    by (simp add: check_update dec)
  have b': "last_status (snd (batch_update (checkWebsiteStatus env s d))) = Some ''UP''"
    by (simp add: check_update assms(5))
  have c: "\<not> batch_throws env \<longrightarrow>
            (\<exists>r'. monitored_sites (db_after (checkWebsiteStatus env s d)) (site_id s) = Some r'
                  \<and> last_notified_down_at r' = None \<and> last_status r' = Some ''UP'')"
    using db_after_row[OF _ assms(2)] b b' by blast
  show ?thesis by (intro conjI a b c t)
qed

text \<open>Scenario C: E is DOWN, notified at second 0, and answers 200 at second 60.\<close>

theorem C3_recovery_clears_witness:
  "sent (checkWebsiteStatus (scenario_env 60 (Response 200)) scenario_site (scenario_db ''DOWN'' (Some 0)))
     = [SiteRecovered ''E'' ''https://e.example''] \<and>
   last_notified_down_at (snd (batch_update
     (checkWebsiteStatus (scenario_env 60 (Response 200)) scenario_site (scenario_db ''DOWN'' (Some 0)))))
     = None \<and>
   (\<exists>r'. monitored_sites (db_after
     (checkWebsiteStatus (scenario_env 60 (Response 200)) scenario_site (scenario_db ''DOWN'' (Some 0))))
        (site_id scenario_site) = Some r' \<and> last_notified_down_at r' = None \<and> last_status r' = Some ''UP'')"
proof -
  have h1: "\<not> select_throws (scenario_env 60 (Response 200))"
    by (simp add: scenario_defs)
  have h2: "monitored_sites (scenario_db ''DOWN'' (Some 0)) (site_id scenario_site)
              = Some (scenario_row ''DOWN'' (Some 0))"
    by (simp add: scenario_defs)
  have h3: "last_status (scenario_row ''DOWN'' (Some 0)) = Some ''DOWN''"
    by (simp add: scenario_defs)
  have h4: "array_includes FAILING ''DOWN''"
    by (simp add: failing_iff)
  have h5: "fst (classify (fetch_result (scenario_env 60 (Response 200)))) = ''UP''"
    by (simp add: scenario_defs classify_def response_ok_def)
  have v: "or_else (site_name scenario_site) ''https://e.example'' = ''E''"
       "site_url scenario_site = ''https://e.example''"
       "\<not> batch_throws (scenario_env 60 (Response 200))"
    by (simp_all add: scenario_defs or_else_def)
  note inst = C3_recovery_clears[OF h1 h2 h3 h4 h5]
  from inst[THEN conjunct1] inst[THEN conjunct2, THEN conjunct1]
       inst[THEN conjunct2, THEN conjunct2, THEN conjunct1]
  show ?thesis
    by (simp add: v)
qed

text \<open>
  The claim as stated fails where the read fails: E is DOWN, the read throws and the probe
  answers 200 at second 60; the check sends no recovery message and writes the status UP
  with a null notification time.
\<close>

theorem C3_recovery_clears_counterexample:
  "monitored_sites (scenario_db ''DOWN'' (Some 0)) (site_id scenario_site)
     = Some (scenario_row ''DOWN'' (Some 0)) \<and>
   last_status (scenario_row ''DOWN'' (Some 0)) = Some ''DOWN'' \<and>
   array_includes FAILING ''DOWN'' \<and>
   fst (classify (fetch_result ((scenario_env 60 (Response 200))\<lparr> select_throws := True \<rparr>))) = ''UP'' \<and>
   sent (checkWebsiteStatus ((scenario_env 60 (Response 200))\<lparr> select_throws := True \<rparr>)
           scenario_site (scenario_db ''DOWN'' (Some 0))) = [] \<and>
   last_status (snd (batch_update
      (checkWebsiteStatus ((scenario_env 60 (Response 200))\<lparr> select_throws := True \<rparr>)
           scenario_site (scenario_db ''DOWN'' (Some 0))))) = Some ''UP'' \<and>
   last_notified_down_at (snd (batch_update
      (checkWebsiteStatus ((scenario_env 60 (Response 200))\<lparr> select_throws := True \<rparr>)
           scenario_site (scenario_db ''DOWN'' (Some 0))))) = None"
proof -
  have a: "monitored_sites (scenario_db ''DOWN'' (Some 0)) (site_id scenario_site)
     = Some (scenario_row ''DOWN'' (Some 0))"
    and b: "last_status (scenario_row ''DOWN'' (Some 0)) = Some ''DOWN''"
    by (simp_all add: scenario_defs)
  have c: "array_includes FAILING ''DOWN''" by (simp add: failing_iff)
  have d: "fst (classify (fetch_result ((scenario_env 60 (Response 200))\<lparr> select_throws := True \<rparr>))) = ''UP''"
    by (simp add: scenario_defs classify_def response_ok_def)
  have e: "sent (checkWebsiteStatus ((scenario_env 60 (Response 200))\<lparr> select_throws := True \<rparr>)
           scenario_site (scenario_db ''DOWN'' (Some 0))) = []"
    by (simp add: check_sent scenario_defs decision_defs)
  have f: "last_status (snd (batch_update
      (checkWebsiteStatus ((scenario_env 60 (Response 200))\<lparr> select_throws := True \<rparr>)
           scenario_site (scenario_db ''DOWN'' (Some 0))))) = Some ''UP''"
    by (simp add: check_update scenario_defs decision_defs)
  have g: "last_notified_down_at (snd (batch_update
      (checkWebsiteStatus ((scenario_env 60 (Response 200))\<lparr> select_throws := True \<rparr>)
           scenario_site (scenario_db ''DOWN'' (Some 0))))) = None"
    by (simp add: check_update scenario_defs decision_defs)
  show ?thesis by (intro conjI a b c d e f g)
qed

text \<open>
  C4. The classification of a probe is total and has four values: a response with status
  from 200 to 499 is \<^verbatim>\<open>'UP'\<close>, a response with status 500 or more is \<^verbatim>\<open>'DOWN'\<close>, a
  rejection named \<^verbatim>\<open>TimeoutError\<close> (the abort of the 15000 ms signal) is \<^verbatim>\<open>'TIMEOUT'\<close>, any
  other rejection is \<^verbatim>\<open>'ERROR'\<close>. One check issues one probe, a \<^verbatim>\<open>HEAD\<close> request following
  redirects with that timeout, and records the status the classification gives.
\<close>

theorem C4_checker_total:
  "fst (classify r) \<in> {''UP'', ''DOWN'', ''TIMEOUT'', ''ERROR''} \<and>
   (\<forall>st. 200 \<le> st \<and> st < 500 \<longrightarrow> classify (Response st) = (''UP'', Some st)) \<and>
   (\<forall>st. 500 \<le> st \<longrightarrow> classify (Response st) = (''DOWN'', Some st)) \<and>
   classify (Rejected ''TimeoutError'') = (''TIMEOUT'', None) \<and>
   (\<forall>n. n \<noteq> ''TimeoutError'' \<longrightarrow> classify (Rejected n) = (''ERROR'', None)) \<and>
   fetch_calls (checkWebsiteStatus env s d)
     = [\<lparr> req_url = site_url s, req_method = ''HEAD'', req_redirect = ''follow'',
          req_timeout_ms = 15000 \<rparr>] \<and>
   h_status (batch_insert (checkWebsiteStatus env s d)) = fst (classify (fetch_result env))"
proof -
  have a: "fst (classify r) \<in> {''UP'', ''DOWN'', ''TIMEOUT'', ''ERROR''}"
    by (simp add: classify_def split: fetch_outcome.splits)
  have b: "\<forall>st. 200 \<le> st \<and> st < 500 \<longrightarrow> classify (Response st) = (''UP'', Some st)"
    by (auto simp: classify_def response_ok_def)
  have c: "\<forall>st. 500 \<le> st \<longrightarrow> classify (Response st) = (''DOWN'', Some st)"
    by (auto simp: classify_def response_ok_def)
  have d: "classify (Rejected ''TimeoutError'') = (''TIMEOUT'', None)"
    by (simp add: classify_def)
  have e: "\<forall>n. n \<noteq> ''TimeoutError'' \<longrightarrow> classify (Rejected n) = (''ERROR'', None)"
    by (simp add: classify_def)
  have f: "h_status (batch_insert (checkWebsiteStatus env s d)) = fst (classify (fetch_result env))"
    by (simp add: check_insert)
  show ?thesis by (intro conjI a b c d e f check_fetch_calls)
qed

theorem C4_checker_total_witness:
  "classify (Response 404) = (''UP'', Some 404) \<and>
   classify (Response 503) = (''DOWN'', Some 503) \<and>
   classify (Rejected ''TimeoutError'') = (''TIMEOUT'', None) \<and>
   classify (Rejected ''TypeError'') = (''ERROR'', None)"
proof -
  note inst = C4_checker_total[of "Response 404" "scenario_env 0 (Response 404)" scenario_site
                 "scenario_db ''UP'' None"]
  have "classify (Response 404) = (''UP'', Some 404)"
    using inst[THEN conjunct2, THEN conjunct1, rule_format, of 404] by simp
  moreover have "classify (Response 503) = (''DOWN'', Some 503)"
    using inst[THEN conjunct2, THEN conjunct2, THEN conjunct1, rule_format, of 503] by simp
  moreover have "classify (Rejected ''TimeoutError'') = (''TIMEOUT'', None)"
    using inst[THEN conjunct2, THEN conjunct2, THEN conjunct2, THEN conjunct1] .
  moreover have "classify (Rejected ''TypeError'') = (''ERROR'', None)"
    using inst[THEN conjunct2, THEN conjunct2, THEN conjunct2, THEN conjunct2, THEN conjunct1,
               rule_format, of "''TypeError''"] by simp
  ultimately show ?thesis by simp
qed

lemma handle_report_history:
  "site_status_history (snd (handle_report renv i k d)) = site_status_history d"
  by (simp add: handle_report_def split: option.splits sum.splits)

lemma update_server_history:
  "site_status_history (update_server u d) = site_status_history d"
  by (simp add: update_server_def split: option.splits)

lemma check_independent_of_dispatch:
  "batch_update (checkWebsiteStatus (env\<lparr>dispatch := de\<rparr>) s (d\<lparr>telegram_config_row := cfg\<rparr>))
     = batch_update (checkWebsiteStatus env s d)"
  "batch_insert (checkWebsiteStatus (env\<lparr>dispatch := de\<rparr>) s (d\<lparr>telegram_config_row := cfg\<rparr>))
     = batch_insert (checkWebsiteStatus env s d)"
  by (simp_all add: check_update check_insert read_previous_def)

lemma history_prefix_kept:
  "take (length (site_status_history d)) (site_status_history (db_after (checkWebsiteStatus env s d)))
     = site_status_history d"
  by (simp add: check_db_after db_batch_def)

text \<open>
  C8. Every check puts one \<^verbatim>\<open>UPDATE\<close> and one \<^verbatim>\<open>INSERT\<close> into its batch: the update
  carries the new status, status code, response time and check time for the endpoint, the
  insert is one status event with the same status, status code and response time. Neither
  depends on the dispatcher or on the channel configuration. When the batch commits, the
  history grows by exactly that row and the endpoint's row holds the update; in every case
  the rows already in the history stay as they are. Metrics ingestion and the host pass's
  updates leave the history alone.
\<close>

theorem C8_persist_every_check:
  "fst (batch_update (checkWebsiteStatus env s d)) = site_id s \<and>
   last_status (snd (batch_update (checkWebsiteStatus env s d)))
     = Some (fst (classify (fetch_result env))) \<and>
   last_status_code (snd (batch_update (checkWebsiteStatus env s d)))
     = snd (classify (fetch_result env)) \<and>
   last_response_time_ms (snd (batch_update (checkWebsiteStatus env s d)))
     = Some (fetched_ms env - start_ms env) \<and>
   last_checked (snd (batch_update (checkWebsiteStatus env s d))) = Some (check_ms env div 1000) \<and>
   batch_insert (checkWebsiteStatus env s d)
     = \<lparr> h_site_id = site_id s, h_timestamp = check_ms env div 1000,
         h_status = fst (classify (fetch_result env)),
         h_status_code = snd (classify (fetch_result env)),
         h_response_time_ms = Some (fetched_ms env - start_ms env) \<rparr> \<and>
   (\<forall>de cfg.
      batch_update (checkWebsiteStatus (env\<lparr>dispatch := de\<rparr>) s (d\<lparr>telegram_config_row := cfg\<rparr>))
        = batch_update (checkWebsiteStatus env s d) \<and>
      batch_insert (checkWebsiteStatus (env\<lparr>dispatch := de\<rparr>) s (d\<lparr>telegram_config_row := cfg\<rparr>))
        = batch_insert (checkWebsiteStatus env s d)) \<and>
   (\<not> batch_throws env \<longrightarrow>
      site_status_history (db_after (checkWebsiteStatus env s d))
        = site_status_history d @ [batch_insert (checkWebsiteStatus env s d)]) \<and>
   (\<forall>r. \<not> batch_throws env \<and> monitored_sites d (site_id s) = Some r \<longrightarrow>
      monitored_sites (db_after (checkWebsiteStatus env s d)) (site_id s)
        = Some (snd (batch_update (checkWebsiteStatus env s d)))) \<and>
   take (length (site_status_history d)) (site_status_history (db_after (checkWebsiteStatus env s d)))
     = site_status_history d \<and>
   site_status_history (snd (handle_report renv i k d)) = site_status_history d \<and>
   site_status_history (update_server u d) = site_status_history d"
proof -
  have a: "fst (batch_update (checkWebsiteStatus env s d)) = site_id s"
    and b: "last_status (snd (batch_update (checkWebsiteStatus env s d)))
              = Some (fst (classify (fetch_result env)))"
    and c: "last_status_code (snd (batch_update (checkWebsiteStatus env s d)))
              = snd (classify (fetch_result env))"
    and e: "last_response_time_ms (snd (batch_update (checkWebsiteStatus env s d)))
              = Some (fetched_ms env - start_ms env)"
    and f: "last_checked (snd (batch_update (checkWebsiteStatus env s d))) = Some (check_ms env div 1000)"
    by (simp_all add: check_update)
  have g: "\<forall>de cfg.
      batch_update (checkWebsiteStatus (env\<lparr>dispatch := de\<rparr>) s (d\<lparr>telegram_config_row := cfg\<rparr>))
        = batch_update (checkWebsiteStatus env s d) \<and>
      batch_insert (checkWebsiteStatus (env\<lparr>dispatch := de\<rparr>) s (d\<lparr>telegram_config_row := cfg\<rparr>))
        = batch_insert (checkWebsiteStatus env s d)"
    using check_independent_of_dispatch by blast
  have h: "\<not> batch_throws env \<longrightarrow>
      site_status_history (db_after (checkWebsiteStatus env s d))
        = site_status_history d @ [batch_insert (checkWebsiteStatus env s d)]"
    using db_after_history by blast
  have j: "\<forall>r. \<not> batch_throws env \<and> monitored_sites d (site_id s) = Some r \<longrightarrow>
      monitored_sites (db_after (checkWebsiteStatus env s d)) (site_id s)
        = Some (snd (batch_update (checkWebsiteStatus env s d)))"
    using db_after_row by blast
  show ?thesis
    by (intro conjI a b c e f check_insert g h j history_prefix_kept handle_report_history
              update_server_history)
qed

text \<open>
  Scenario A, third check: E was UP and answers 500 at second 100; the status event is
  appended and the row holds the new status.
\<close>

theorem C8_persist_every_check_witness:
  "site_status_history (db_after
      (checkWebsiteStatus (scenario_env 100 (Response 500)) scenario_site (scenario_db ''UP'' None)))
     = [\<lparr> h_site_id = ''e'', h_timestamp = 100, h_status = ''DOWN'', h_status_code = Some 500,
          h_response_time_ms = Some 120 \<rparr>] \<and>
   monitored_sites (db_after
      (checkWebsiteStatus (scenario_env 100 (Response 500)) scenario_site (scenario_db ''UP'' None))) ''e''
     = Some \<lparr> last_checked = Some 100, last_status = Some ''DOWN'', last_status_code = Some 500,
              last_response_time_ms = Some 120, last_notified_down_at = Some 100 \<rparr>"
proof -
  note inst = C8_persist_every_check[of "scenario_env 100 (Response 500)" scenario_site
       "scenario_db ''UP'' None"]
  have nt: "\<not> batch_throws (scenario_env 100 (Response 500))"
    by (simp add: scenario_defs)
  have row: "monitored_sites (scenario_db ''UP'' None) (site_id scenario_site)
               = Some (scenario_row ''UP'' None)"
    by (simp add: scenario_defs)
  have sid: "site_id scenario_site = ''e''"
    by (simp add: scenario_defs)
  have hist0: "site_status_history (scenario_db ''UP'' None) = []"
    by (simp add: scenario_defs)
  have ins: "batch_insert (checkWebsiteStatus (scenario_env 100 (Response 500)) scenario_site
               (scenario_db ''UP'' None))
     = \<lparr> h_site_id = ''e'', h_timestamp = 100, h_status = ''DOWN'', h_status_code = Some 500,
          h_response_time_ms = Some 120 \<rparr>"
    by (simp add: check_insert scenario_defs classify_def response_ok_def)
  have upd: "snd (batch_update (checkWebsiteStatus (scenario_env 100 (Response 500)) scenario_site
               (scenario_db ''UP'' None)))
     = \<lparr> last_checked = Some 100, last_status = Some ''DOWN'', last_status_code = Some 500,
              last_response_time_ms = Some 120, last_notified_down_at = Some 100 \<rparr>"
    by (simp add: check_update scenario_defs decision_defs)
  from inst nt have "site_status_history (db_after
      (checkWebsiteStatus (scenario_env 100 (Response 500)) scenario_site (scenario_db ''UP'' None)))
     = site_status_history (scenario_db ''UP'' None)
        @ [batch_insert (checkWebsiteStatus (scenario_env 100 (Response 500)) scenario_site
               (scenario_db ''UP'' None))]"
    by blast
  then have a: "site_status_history (db_after
      (checkWebsiteStatus (scenario_env 100 (Response 500)) scenario_site (scenario_db ''UP'' None)))
     = [\<lparr> h_site_id = ''e'', h_timestamp = 100, h_status = ''DOWN'', h_status_code = Some 500,
          h_response_time_ms = Some 120 \<rparr>]"
    by (simp add: ins hist0)
  from inst nt row have "monitored_sites (db_after
      (checkWebsiteStatus (scenario_env 100 (Response 500)) scenario_site (scenario_db ''UP'' None)))
        (site_id scenario_site)
     = Some (snd (batch_update (checkWebsiteStatus (scenario_env 100 (Response 500)) scenario_site
               (scenario_db ''UP'' None))))"
    by blast
  then have b: "monitored_sites (db_after
      (checkWebsiteStatus (scenario_env 100 (Response 500)) scenario_site (scenario_db ''UP'' None))) ''e''
     = Some \<lparr> last_checked = Some 100, last_status = Some ''DOWN'', last_status_code = Some 500,
              last_response_time_ms = Some 120, last_notified_down_at = Some 100 \<rparr>"
    by (simp add: upd sid)
  from a b show ?thesis by blast
qed

text \<open>
  C9. The invariant \<open>engine_inv\<close> (the stored \<^verbatim>\<open>last_notified_down_at\<close> is non-null only
  while the current unbroken run of failing committed checks contains one that sent a
  "down" or "still down" message) is preserved by every check, so it holds after any
  sequence of checks of an endpoint whose row starts with a null notification time. The
  value a check writes is the check time exactly when it sends such a message, null when
  it sends the recovery message, and the value it read otherwise, which is the stored one
  when the read succeeds.
\<close>

theorem C9_notified_invariant:
  "(engine_inv s d tr \<longrightarrow>
      engine_inv s (db_after (checkWebsiteStatus e s d)) (tr @ [checkWebsiteStatus e s d])) \<and>
   (\<forall>r0. monitored_sites d (site_id s) = Some r0 \<and> last_notified_down_at r0 = None \<longrightarrow>
      (\<exists>r. monitored_sites (final_db envs s d) (site_id s) = Some r \<and>
           (last_notified_down_at r \<noteq> None \<longrightarrow> run_notified (run_checks envs s d)))) \<and>
   last_notified_down_at (snd (batch_update (checkWebsiteStatus e s d))) =
     (if notified_down (checkWebsiteStatus e s d) then Some (check_ms e div 1000)
      else if list_ex is_recovery_notice (sent (checkWebsiteStatus e s d)) then None
      else snd (read_previous (select_throws e) d (site_id s))) \<and>
   (\<forall>r. \<not> select_throws e \<and> monitored_sites d (site_id s) = Some r \<longrightarrow>
      snd (read_previous (select_throws e) d (site_id s)) = last_notified_down_at r)"
proof -
  have a: "engine_inv s d tr \<longrightarrow>
      engine_inv s (db_after (checkWebsiteStatus e s d)) (tr @ [checkWebsiteStatus e s d])"
    using engine_inv_step by blast
  have b: "\<forall>r0. monitored_sites d (site_id s) = Some r0 \<and> last_notified_down_at r0 = None \<longrightarrow>
      (\<exists>r. monitored_sites (final_db envs s d) (site_id s) = Some r \<and>
           (last_notified_down_at r \<noteq> None \<longrightarrow> run_notified (run_checks envs s d)))"
  proof (intro allI impI)
    fix r0
    assume "monitored_sites d (site_id s) = Some r0 \<and> last_notified_down_at r0 = None"
    then have "engine_inv s d []" by (simp add: engine_inv_init)
    from engine_inv_run[OF this, of envs]
    show "\<exists>r. monitored_sites (final_db envs s d) (site_id s) = Some r \<and>
           (last_notified_down_at r \<noteq> None \<longrightarrow> run_notified (run_checks envs s d))"
      by (auto simp: engine_inv_def split: option.splits)
  qed
  have c: "\<forall>r. \<not> select_throws e \<and> monitored_sites d (site_id s) = Some r \<longrightarrow>
      snd (read_previous (select_throws e) d (site_id s)) = last_notified_down_at r"
    by (simp add: read_previous_def)
  show ?thesis by (intro conjI a b update_lnda c)
qed

text \<open>
  Scenario A followed by a repeat: E starts PENDING, is UP at second 10, answers 500 at
  second 70 and again at second 130. The stored notification time is 70, and the current
  failing run has been notified.
\<close>

theorem C9_notified_invariant_witness:
  "(\<exists>r. monitored_sites
          (final_db [scenario_env 10 (Response 200), scenario_env 70 (Response 500),
                     scenario_env 130 (Response 500)] scenario_site (scenario_db ''PENDING'' None))
          (site_id scenario_site) = Some r \<and>
        last_notified_down_at r = Some 70) \<and>
   run_notified
     (run_checks [scenario_env 10 (Response 200), scenario_env 70 (Response 500),
                  scenario_env 130 (Response 500)] scenario_site (scenario_db ''PENDING'' None))"
proof -
  let ?envs = "[scenario_env 10 (Response 200), scenario_env 70 (Response 500),
                scenario_env 130 (Response 500)]"
  have row: "monitored_sites (scenario_db ''PENDING'' None) (site_id scenario_site)
               = Some (scenario_row ''PENDING'' None)
             \<and> last_notified_down_at (scenario_row ''PENDING'' None) = None"
    by (simp add: scenario_defs)
  have fin: "monitored_sites (final_db ?envs scenario_site (scenario_db ''PENDING'' None))
               (site_id scenario_site)
             = Some \<lparr> last_checked = Some 130, last_status = Some ''DOWN'',
                      last_status_code = Some 500, last_response_time_ms = Some 120,
                      last_notified_down_at = Some 70 \<rparr>"
    by (simp add: scenario_defs engine_defs Let_def)
  from C9_notified_invariant[of scenario_site "scenario_db ''PENDING'' None" "[]"
         "scenario_env 10 (Response 200)" ?envs] row
  obtain r where r: "monitored_sites (final_db ?envs scenario_site (scenario_db ''PENDING'' None))
               (site_id scenario_site) = Some r"
     "last_notified_down_at r \<noteq> None \<longrightarrow>
        run_notified (run_checks ?envs scenario_site (scenario_db ''PENDING'' None))"
    by blast
  from r(1) fin have "last_notified_down_at r = Some 70" by simp
  with r show ?thesis by simp
qed

section \<open>The host pass\<close>

lemma isStale_iff:
  "isStale now rep \<longleftrightarrow> rep = None \<or> rep = Some 0 \<or> (\<exists>t. rep = Some t \<and> now - t > 5 * 60)"
  by (auto simp: isStale_def staleThresholdSeconds_def split: option.splits)

lemma check_server_cases:
  "check_server now h =
     (if isStale now (sr_last_report h) then
        (if sr_last_notified_down_at h = None
            \<or> (\<exists>t. sr_last_notified_down_at h = Some t \<and> now - t > NOTIFICATION_INTERVAL_SECONDS)
         then ([VpsDown (if sr_name h = [] then sr_id h else sr_name h)
                  (if truthy_int (sr_last_report h) then sr_last_report h else None)],
               [(sr_id h, Some now)])
         else ([], []))
      else
        (if sr_last_notified_down_at h \<noteq> None
         then ([VpsRecovered (if sr_name h = [] then sr_id h else sr_name h)
                  (if truthy_int (sr_last_report h) then sr_last_report h else None)],
               [(sr_id h, None)])
         else ([], [])))"
  by (simp add: check_server_def Let_def shouldResend_iff)

lemma scheduled_vps_enabled:
  assumes "\<not> sites_query_throws env" "\<not> vps_config_throws env"
          "config_enabled (telegram_config_row d)" "\<not> servers_query_throws env"
  shows "vps_sent (scheduled_vps env d)
           = concat (map (\<lambda>h. fst (check_server (now_ms env div 1000) h)) (serversToCheck env))"
    and "vps_updates (scheduled_vps env d)
           = concat (map (\<lambda>h. snd (check_server (now_ms env div 1000) h)) (serversToCheck env))"
  using assms by (simp_all add: scheduled_vps_def Let_def comp_def)

lemma scheduled_vps_skipped:
  "\<not> config_enabled (telegram_config_row d) \<Longrightarrow>
   scheduled_vps env d = \<lparr> vps_sent = [], vps_updates = [] \<rparr>"
  by (simp add: scheduled_vps_def)

text \<open>
  C5, as amended. When the notification channel is configured and enabled and the queries
  succeed, one host pass handles every row the query returns, in order. A host is stale
  when it has no report (a null or zero timestamp) or its report is more than 300 seconds
  old. A stale host whose \<^verbatim>\<open>last_notified_down_at\<close> is null or more than 3600 seconds old
  gets one "down" message and the update to the time of the pass; a stale host notified
  less than that ago gets nothing; a host that is not stale and has a non-null
  \<^verbatim>\<open>last_notified_down_at\<close> gets one recovery message and the update to null; any other
  host gets nothing. When the channel is missing or disabled, or one of the queries
  throws, the pass is skipped: no message and no update.
\<close>

theorem C5_host_watchdog:
  "(\<not> sites_query_throws env \<and> \<not> vps_config_throws env
      \<and> config_enabled (telegram_config_row d) \<and> \<not> servers_query_throws env \<longrightarrow>
      vps_sent (scheduled_vps env d)
        = concat (map (\<lambda>h. fst (check_server (now_ms env div 1000) h)) (serversToCheck env)) \<and>
      vps_updates (scheduled_vps env d)
        = concat (map (\<lambda>h. snd (check_server (now_ms env div 1000) h)) (serversToCheck env))) \<and>
   (\<not> config_enabled (telegram_config_row d) \<or> sites_query_throws env
      \<or> vps_config_throws env \<or> servers_query_throws env \<longrightarrow>
      scheduled_vps env d = \<lparr> vps_sent = [], vps_updates = [] \<rparr>) \<and>
   (isStale now rep \<longleftrightarrow> rep = None \<or> rep = Some 0 \<or> (\<exists>t. rep = Some t \<and> now - t > 5 * 60)) \<and>
   check_server now h =
     (if isStale now (sr_last_report h) then
        (if sr_last_notified_down_at h = None
            \<or> (\<exists>t. sr_last_notified_down_at h = Some t \<and> now - t > NOTIFICATION_INTERVAL_SECONDS)
         then ([VpsDown (if sr_name h = [] then sr_id h else sr_name h)
                  (if truthy_int (sr_last_report h) then sr_last_report h else None)],
               [(sr_id h, Some now)])
         else ([], []))
      else
        (if sr_last_notified_down_at h \<noteq> None
         then ([VpsRecovered (if sr_name h = [] then sr_id h else sr_name h)
                  (if truthy_int (sr_last_report h) then sr_last_report h else None)],
               [(sr_id h, None)])
         else ([], []))) \<and>
   (\<forall>r. servers d (sr_id h) = Some r \<longrightarrow>
      servers (update_server (sr_id h, Some now) d) (sr_id h)
        = Some (r\<lparr> server_last_notified_down_at := Some now \<rparr>) \<and>
      servers (update_server (sr_id h, None) d) (sr_id h)
        = Some (r\<lparr> server_last_notified_down_at := None \<rparr>))"
proof -
  have a: "\<not> sites_query_throws env \<and> \<not> vps_config_throws env
      \<and> config_enabled (telegram_config_row d) \<and> \<not> servers_query_throws env \<longrightarrow>
      vps_sent (scheduled_vps env d)
        = concat (map (\<lambda>h. fst (check_server (now_ms env div 1000) h)) (serversToCheck env)) \<and>
      vps_updates (scheduled_vps env d)
        = concat (map (\<lambda>h. snd (check_server (now_ms env div 1000) h)) (serversToCheck env))"
    using scheduled_vps_enabled by blast
  have b: "\<not> config_enabled (telegram_config_row d) \<or> sites_query_throws env
      \<or> vps_config_throws env \<or> servers_query_throws env \<longrightarrow>
      scheduled_vps env d = \<lparr> vps_sent = [], vps_updates = [] \<rparr>"
    by (simp add: scheduled_vps_def)
  have c: "\<forall>r. servers d (sr_id h) = Some r \<longrightarrow>
      servers (update_server (sr_id h, Some now) d) (sr_id h)
        = Some (r\<lparr> server_last_notified_down_at := Some now \<rparr>) \<and>
      servers (update_server (sr_id h, None) d) (sr_id h)
        = Some (r\<lparr> server_last_notified_down_at := None \<rparr>)"
    by (simp add: update_server_def)
  show ?thesis by (intro conjI a b isStale_iff check_server_cases c)
qed

text \<open>
  Scenario D with the channel enabled: H has never reported. The pass at second 1000
  sends one "down" message and sets the notification time to 1000; with that time stored,
  the pass at second 2800 sends nothing and the pass at second 4601 sends again.
\<close>

theorem C5_host_watchdog_witness:
  "scheduled_vps (scenario_vps_env 1000 [scenario_host None None]) (scenario_db ''UP'' None)
     = \<lparr> vps_sent = [VpsDown ''H'' None], vps_updates = [(''h'', Some 1000)] \<rparr> \<and>
   scheduled_vps (scenario_vps_env 2800 [scenario_host (Some 1000) None]) (scenario_db ''UP'' None)
     = \<lparr> vps_sent = [], vps_updates = [] \<rparr> \<and>
   scheduled_vps (scenario_vps_env 4601 [scenario_host (Some 1000) None]) (scenario_db ''UP'' None)
     = \<lparr> vps_sent = [VpsDown ''H'' None], vps_updates = [(''h'', Some 4601)] \<rparr>"
proof -
  have en: "config_enabled (telegram_config_row (scenario_db ''UP'' None))"
    by (simp add: scenario_defs config_enabled_def truthy_int_def truthy_str_def)
  have ok: "\<not> sites_query_throws (scenario_vps_env t rows)"
           "\<not> vps_config_throws (scenario_vps_env t rows)"
           "\<not> servers_query_throws (scenario_vps_env t rows)"
           "serversToCheck (scenario_vps_env t rows) = rows"
           "now_ms (scenario_vps_env t rows) div 1000 = t" for t rows
    by (simp_all add: scenario_vps_env_def)
  have st: "isStale t None" for t by (simp add: isStale_def)
  have h: "sr_last_report (scenario_host l None) = None"
          "sr_last_notified_down_at (scenario_host l None) = l"
          "sr_name (scenario_host l None) = ''H''" "sr_id (scenario_host l None) = ''h''" for l
    by (simp_all add: scenario_host_def)
  have nis: "NOTIFICATION_INTERVAL_SECONDS = 3600" by (simp add: NOTIFICATION_INTERVAL_SECONDS_def)
  note inst = C5_host_watchdog[where d = "scenario_db ''UP'' None"]
  have run: "vps_sent (scheduled_vps (scenario_vps_env t rows) (scenario_db ''UP'' None))
                = concat (map (\<lambda>h. fst (check_server t h)) rows) \<and>
             vps_updates (scheduled_vps (scenario_vps_env t rows) (scenario_db ''UP'' None))
                = concat (map (\<lambda>h. snd (check_server t h)) rows)" for t rows
    using inst[where env = "scenario_vps_env t rows", THEN conjunct1] en ok[of t rows] by simp
  have cs: "check_server t (scenario_host l None) =
        (if l = None \<or> (\<exists>t0. l = Some t0 \<and> t - t0 > 3600)
         then ([VpsDown ''H'' None], [(''h'', Some t)]) else ([], []))" for t l
    using inst[where h = "scenario_host l None" and now = t,
               THEN conjunct2, THEN conjunct2, THEN conjunct2, THEN conjunct1]
    by (simp add: st h nis truthy_int_def)
  have eqI: "x = \<lparr> vps_sent = a, vps_updates = b \<rparr>" if "vps_sent x = a \<and> vps_updates x = b"
    for x :: vps_outcome and a b using that by (cases x) simp
  show ?thesis
    by (intro conjI eqI) (simp_all add: run cs)
qed

text \<open>
  The claim as stated fails: with the channel disabled, the never-reporting host H, whose
  notification time is null, is stale, yet the pass sends nothing and updates nothing.
\<close>

theorem C5_host_watchdog_counterexample:
  "isStale 1000 (sr_last_report (scenario_host None None)) \<and>
   sr_last_notified_down_at (scenario_host None None) = None \<and>
   serversToCheck (scenario_vps_env 1000 [scenario_host None None]) = [scenario_host None None] \<and>
   scheduled_vps (scenario_vps_env 1000 [scenario_host None None])
     ((scenario_db ''UP'' None)\<lparr> telegram_config_row := scenario_channel 0 \<rparr>)
     = \<lparr> vps_sent = [], vps_updates = [] \<rparr>"
  by (simp add: scenario_defs scenario_host_def scenario_vps_env_def isStale_def scheduled_vps_def
        config_enabled_def truthy_int_def truthy_str_def)

section \<open>The waves of endpoint checks\<close>

lemma site_loop_ok:
  "length ps < siteConcurrencyLimit \<Longrightarrow>
   list_all wave_ok (zip (site_loop xs ps) (in_flight (length ps) (site_loop xs ps)))"
proof (induction xs arbitrary: ps)
  case Nil
  then show ?case by (cases ps) (simp_all add: siteConcurrencyLimit_def)
next
  case (Cons x xs)
  show ?case
  proof (cases "length (ps @ [x]) \<ge> siteConcurrencyLimit")
    case True
    have "list_all wave_ok (zip (site_loop xs []) (in_flight (length ([]::'a list)) (site_loop xs [])))"
      by (rule Cons.IH) (simp add: siteConcurrencyLimit_def)
    then show ?thesis using True Cons.prems by (simp add: Let_def)
  next
    case False
    then have "length (ps @ [x]) < siteConcurrencyLimit" by simp
    from Cons.IH[OF this] show ?thesis using False Cons.prems by (simp add: Let_def)
  qed
qed

lemma site_loop_in_flight:
  "length ps < siteConcurrencyLimit \<Longrightarrow>
   \<forall>n\<in>set (in_flight (length ps) (site_loop xs ps)). n \<le> siteConcurrencyLimit"
proof (induction xs arbitrary: ps)
  case Nil
  then show ?case by simp
next
  case (Cons x xs)
  show ?case
  proof (cases "length (ps @ [x]) \<ge> siteConcurrencyLimit")
    case True
    have "\<forall>n\<in>set (in_flight (length ([]::'a list)) (site_loop xs [])). n \<le> siteConcurrencyLimit"
      by (rule Cons.IH) (simp add: siteConcurrencyLimit_def)
    then show ?thesis using True Cons.prems by (simp add: Let_def)
  next
    case False
    then have "length (ps @ [x]) < siteConcurrencyLimit" by simp
    from Cons.IH[OF this] show ?thesis using False Cons.prems by (simp add: Let_def)
  qed
qed

lemma site_loop_waves:
  "concat (waves (site_loop xs ps)) = ps @ xs"
  by (induction xs arbitrary: ps) (simp_all add: Let_def)

lemma site_loop_started:
  "started (site_loop xs ps) = xs"
  by (induction xs arbitrary: ps) (simp_all add: Let_def)

lemma site_loop_wave_sizes:
  "length ps < siteConcurrencyLimit \<Longrightarrow>
   \<forall>w\<in>set (waves (site_loop xs ps)). 1 \<le> length w \<and> length w \<le> siteConcurrencyLimit"
proof (induction xs arbitrary: ps)
  case Nil
  then show ?case by (cases ps) simp_all
next
  case (Cons x xs)
  show ?case
  proof (cases "length (ps @ [x]) \<ge> siteConcurrencyLimit")
    case True
    have "\<forall>w\<in>set (waves (site_loop xs [])). 1 \<le> length w \<and> length w \<le> siteConcurrencyLimit"
      by (rule Cons.IH) (simp add: siteConcurrencyLimit_def)
    then show ?thesis using True Cons.prems by (simp add: Let_def)
  next
    case False
    then have "length (ps @ [x]) < siteConcurrencyLimit" by simp
    from Cons.IH[OF this] show ?thesis using False by (simp add: Let_def)
  qed
qed

lemma site_loop_full_waves:
  "length ps < siteConcurrencyLimit \<Longrightarrow>
   \<forall>w\<in>set (butlast (waves (site_loop xs ps))). length w = siteConcurrencyLimit"
proof (induction xs arbitrary: ps)
  case Nil
  then show ?case by simp
next
  case (Cons x xs)
  show ?case
  proof (cases "length (ps @ [x]) \<ge> siteConcurrencyLimit")
    case True
    have "\<forall>w\<in>set (butlast (waves (site_loop xs []))). length w = siteConcurrencyLimit"
      by (rule Cons.IH) (simp add: siteConcurrencyLimit_def)
    moreover have "length (ps @ [x]) = siteConcurrencyLimit" using True Cons.prems by simp
    ultimately show ?thesis using True by (simp add: Let_def)
  next
    case False
    then have "length (ps @ [x]) < siteConcurrencyLimit" by simp
    from Cons.IH[OF this] show ?thesis using False by (simp add: Let_def)
  qed
qed

text \<open>
  C7. For every list of endpoints, the pass starts each endpoint's check once, in order,
  and never has more than 10 checks in flight: every start leaves between 1 and 10 in
  flight, every await covers between 1 and 10 checks and leaves none in flight before the
  next start. The awaited waves partition the list in order, and every wave but the last
  has exactly 10 checks.
\<close>

theorem C7_bounded_waves:
  "siteConcurrencyLimit = 10 \<and>
   (\<forall>n\<in>set (in_flight 0 (scheduled_sites sitesToCheck)). n \<le> 10) \<and>
   list_all wave_ok (zip (scheduled_sites sitesToCheck) (in_flight 0 (scheduled_sites sitesToCheck))) \<and>
   started (scheduled_sites sitesToCheck) = sitesToCheck \<and>
   concat (waves (scheduled_sites sitesToCheck)) = sitesToCheck \<and>
   (\<forall>w\<in>set (waves (scheduled_sites sitesToCheck)). 1 \<le> length w \<and> length w \<le> 10) \<and>
   (\<forall>w\<in>set (butlast (waves (scheduled_sites sitesToCheck))). length w = 10)"
proof -
  have l: "length ([]::'a list) < siteConcurrencyLimit" by (simp add: siteConcurrencyLimit_def)
  have ten: "siteConcurrencyLimit = 10" by (simp add: siteConcurrencyLimit_def)
  have a: "\<forall>n\<in>set (in_flight 0 (scheduled_sites sitesToCheck)). n \<le> 10"
    using site_loop_in_flight[OF l, of sitesToCheck] by (simp add: scheduled_sites_def ten)
  have b: "list_all wave_ok (zip (scheduled_sites sitesToCheck) (in_flight 0 (scheduled_sites sitesToCheck)))"
    using site_loop_ok[OF l, of sitesToCheck] by (simp add: scheduled_sites_def)
  have c: "started (scheduled_sites sitesToCheck) = sitesToCheck"
    by (simp add: scheduled_sites_def site_loop_started)
  have d: "concat (waves (scheduled_sites sitesToCheck)) = sitesToCheck"
    by (simp add: scheduled_sites_def site_loop_waves)
  have e: "\<forall>w\<in>set (waves (scheduled_sites sitesToCheck)). 1 \<le> length w \<and> length w \<le> 10"
    using site_loop_wave_sizes[OF l, of sitesToCheck] by (simp add: scheduled_sites_def ten)
  have f: "\<forall>w\<in>set (butlast (waves (scheduled_sites sitesToCheck))). length w = 10"
    using site_loop_full_waves[OF l, of sitesToCheck] by (simp add: scheduled_sites_def ten)
  show ?thesis by (intro conjI ten a b c d e f)
qed

text \<open>Twelve endpoints: a wave of ten, then a wave of two.\<close>

theorem C7_bounded_waves_witness:
  "waves (scheduled_sites [1, 2, 3, 4, 5, 6, 7, 8, 9, 10, 11, 12 :: nat])
     = [ [1, 2, 3, 4, 5, 6, 7, 8, 9, 10], [11, 12] ] \<and>
   in_flight 0 (scheduled_sites [1, 2, 3, 4, 5, 6, 7, 8, 9, 10, 11, 12 :: nat])
     = [1, 2, 3, 4, 5, 6, 7, 8, 9, 10, 0, 1, 2, 0] \<and>
   list_all (\<lambda>n. n \<le> 10)
     (in_flight 0 (scheduled_sites [1, 2, 3, 4, 5, 6, 7, 8, 9, 10, 11, 12 :: nat]))"
proof -
  have w: "waves (scheduled_sites [1, 2, 3, 4, 5, 6, 7, 8, 9, 10, 11, 12 :: nat])
     = [ [1, 2, 3, 4, 5, 6, 7, 8, 9, 10], [11, 12] ]"
    by (simp add: scheduled_sites_def siteConcurrencyLimit_def Let_def)
  have i: "in_flight 0 (scheduled_sites [1, 2, 3, 4, 5, 6, 7, 8, 9, 10, 11, 12 :: nat])
     = [1, 2, 3, 4, 5, 6, 7, 8, 9, 10, 0, 1, 2, 0]"
    by (simp add: scheduled_sites_def siteConcurrencyLimit_def Let_def)
  from C7_bounded_waves[of "[1, 2, 3, 4, 5, 6, 7, 8, 9, 10, 11, 12 :: nat]"]
  have "\<forall>n\<in>set (in_flight 0 (scheduled_sites [1, 2, 3, 4, 5, 6, 7, 8, 9, 10, 11, 12 :: nat])). n \<le> 10"
    by blast
  then have "list_all (\<lambda>n. n \<le> 10)
     (in_flight 0 (scheduled_sites [1, 2, 3, 4, 5, 6, 7, 8, 9, 10, 11, 12 :: nat]))"
    by (simp only: list_all_iff)
  with w i show ?thesis by blast
qed

section \<open>Metrics ingestion\<close>

lemma handle_report_rejected_keeps:
  "fst (handle_report env serverId apiKey d) \<noteq> 200 \<Longrightarrow>
   snd (handle_report env serverId apiKey d) = d"
  by (auto simp: handle_report_def split: option.splits sum.splits if_splits)

lemma handle_report_validation:
  assumes "truthy_str apiKey" "server_select_throws env = None"
          "servers d serverId = Some serverData" "Some (api_key serverData) = apiKey"
          "body env = Inr reportData" "reportData \<noteq> JNull"
  shows "handle_report env serverId apiKey d =
           (if \<not> truthy_prop reportData ''timestamp'' \<or> \<not> truthy_prop reportData ''cpu''
                \<or> \<not> truthy_prop reportData ''memory'' \<or> \<not> truthy_prop reportData ''disk''
                \<or> \<not> truthy_prop reportData ''network''
                \<or> get_prop reportData ''uptime'' = None then (400, d)
            else case replace_throws env of
                   Some message \<Rightarrow> (report_catch (exec_throws env) message, d)
                 | None \<Rightarrow> (200, d\<lparr> metrics := (metrics d)(serverId \<mapsto> metrics_of reportData) \<rparr>))"
  using assms by (simp add: handle_report_def)

lemma falsy_prop:
  "get_prop reportData k = Some v \<Longrightarrow> \<not> truthy v \<Longrightarrow> \<not> truthy_prop reportData k"
  by (simp add: truthy_prop_def)

text \<open>
  C10. For a request that passes the key checks and whose body parses: when one of
  \<^verbatim>\<open>timestamp\<close>, \<^verbatim>\<open>cpu\<close>, \<^verbatim>\<open>memory\<close>, \<^verbatim>\<open>disk\<close>, \<^verbatim>\<open>network\<close> is present with a falsy value
  (0, the empty string, false, null), the response is 400 and the store is unchanged;
  \<^verbatim>\<open>uptime\<close> is only required to be present, so with the five truthy and any \<^verbatim>\<open>uptime\<close>
  value, 0 included, the report is accepted with 200 and the metrics row of the host is
  replaced, when the \<^verbatim>\<open>REPLACE\<close> succeeds; without \<^verbatim>\<open>uptime\<close> the response is 400. Every
  response other than 200 leaves the store, and so the metrics snapshot, unchanged.
\<close>

theorem C10_report_validation:
  "\<not> truthy (JNum 0) \<and> \<not> truthy (JStr []) \<and> \<not> truthy (JBool False) \<and> \<not> truthy JNull \<and>
   (truthy_str apiKey \<and> server_select_throws env = None \<and> servers d serverId = Some serverData
      \<and> Some (api_key serverData) = apiKey \<and> body env = Inr reportData \<and> reportData \<noteq> JNull
    \<longrightarrow>
      (\<forall>k v. k \<in> {''timestamp'', ''cpu'', ''memory'', ''disk'', ''network''}
             \<and> get_prop reportData k = Some v \<and> \<not> truthy v
           \<longrightarrow> handle_report env serverId apiKey d = (400, d)) \<and>
      (get_prop reportData ''uptime'' = None \<longrightarrow> handle_report env serverId apiKey d = (400, d)) \<and>
      (\<forall>u. truthy_prop reportData ''timestamp'' \<and> truthy_prop reportData ''cpu''
             \<and> truthy_prop reportData ''memory'' \<and> truthy_prop reportData ''disk''
             \<and> truthy_prop reportData ''network'' \<and> get_prop reportData ''uptime'' = Some u
             \<and> replace_throws env = None
           \<longrightarrow> handle_report env serverId apiKey d
                 = (200, d\<lparr> metrics := (metrics d)(serverId \<mapsto> metrics_of reportData) \<rparr>)
               \<and> m_uptime (metrics_of reportData) = u)) \<and>
   (fst (handle_report env serverId apiKey d) \<noteq> 200 \<longrightarrow>
      snd (handle_report env serverId apiKey d) = d \<and>
      metrics (snd (handle_report env serverId apiKey d)) = metrics d)"
proof -
  have a: "\<not> truthy (JNum 0) \<and> \<not> truthy (JStr []) \<and> \<not> truthy (JBool False) \<and> \<not> truthy JNull"
    by simp
  have b: "truthy_str apiKey \<and> server_select_throws env = None \<and> servers d serverId = Some serverData
      \<and> Some (api_key serverData) = apiKey \<and> body env = Inr reportData \<and> reportData \<noteq> JNull
    \<longrightarrow>
      (\<forall>k v. k \<in> {''timestamp'', ''cpu'', ''memory'', ''disk'', ''network''}
             \<and> get_prop reportData k = Some v \<and> \<not> truthy v
           \<longrightarrow> handle_report env serverId apiKey d = (400, d)) \<and>
      (get_prop reportData ''uptime'' = None \<longrightarrow> handle_report env serverId apiKey d = (400, d)) \<and>
      (\<forall>u. truthy_prop reportData ''timestamp'' \<and> truthy_prop reportData ''cpu''
             \<and> truthy_prop reportData ''memory'' \<and> truthy_prop reportData ''disk''
             \<and> truthy_prop reportData ''network'' \<and> get_prop reportData ''uptime'' = Some u
             \<and> replace_throws env = None
           \<longrightarrow> handle_report env serverId apiKey d
                 = (200, d\<lparr> metrics := (metrics d)(serverId \<mapsto> metrics_of reportData) \<rparr>)
               \<and> m_uptime (metrics_of reportData) = u)"
  proof (intro impI)
    assume pre: "truthy_str apiKey \<and> server_select_throws env = None
      \<and> servers d serverId = Some serverData
      \<and> Some (api_key serverData) = apiKey \<and> body env = Inr reportData \<and> reportData \<noteq> JNull"
    then have v: "handle_report env serverId apiKey d =
           (if \<not> truthy_prop reportData ''timestamp'' \<or> \<not> truthy_prop reportData ''cpu''
                \<or> \<not> truthy_prop reportData ''memory'' \<or> \<not> truthy_prop reportData ''disk''
                \<or> \<not> truthy_prop reportData ''network''
                \<or> get_prop reportData ''uptime'' = None then (400, d)
            else case replace_throws env of
                   Some message \<Rightarrow> (report_catch (exec_throws env) message, d)
                 | None \<Rightarrow> (200, d\<lparr> metrics := (metrics d)(serverId \<mapsto> metrics_of reportData) \<rparr>))"
      using handle_report_validation by blast
    have b1: "\<forall>k v. k \<in> {''timestamp'', ''cpu'', ''memory'', ''disk'', ''network''}
             \<and> get_prop reportData k = Some v \<and> \<not> truthy v
           \<longrightarrow> handle_report env serverId apiKey d = (400, d)"
    proof (intro allI impI)
      fix k v'
      assume h: "k \<in> {''timestamp'', ''cpu'', ''memory'', ''disk'', ''network''}
             \<and> get_prop reportData k = Some v' \<and> \<not> truthy v'"
      then have "\<not> truthy_prop reportData k" using falsy_prop by blast
      with h have "\<not> truthy_prop reportData ''timestamp'' \<or> \<not> truthy_prop reportData ''cpu''
                \<or> \<not> truthy_prop reportData ''memory'' \<or> \<not> truthy_prop reportData ''disk''
                \<or> \<not> truthy_prop reportData ''network''
                \<or> get_prop reportData ''uptime'' = None" by blast
      then show "handle_report env serverId apiKey d = (400, d)" by (simp only: v if_True)
    qed
    have b2: "get_prop reportData ''uptime'' = None \<longrightarrow> handle_report env serverId apiKey d = (400, d)"
      using v by simp
    have b3: "\<forall>u. truthy_prop reportData ''timestamp'' \<and> truthy_prop reportData ''cpu''
             \<and> truthy_prop reportData ''memory'' \<and> truthy_prop reportData ''disk''
             \<and> truthy_prop reportData ''network'' \<and> get_prop reportData ''uptime'' = Some u
             \<and> replace_throws env = None
           \<longrightarrow> handle_report env serverId apiKey d
                 = (200, d\<lparr> metrics := (metrics d)(serverId \<mapsto> metrics_of reportData) \<rparr>)
               \<and> m_uptime (metrics_of reportData) = u"
      using v by (simp add: metrics_of_def the_default_def)
    from b1 b2 b3 show "(\<forall>k v. k \<in> {''timestamp'', ''cpu'', ''memory'', ''disk'', ''network''}
             \<and> get_prop reportData k = Some v \<and> \<not> truthy v
           \<longrightarrow> handle_report env serverId apiKey d = (400, d)) \<and>
      (get_prop reportData ''uptime'' = None \<longrightarrow> handle_report env serverId apiKey d = (400, d)) \<and>
      (\<forall>u. truthy_prop reportData ''timestamp'' \<and> truthy_prop reportData ''cpu''
             \<and> truthy_prop reportData ''memory'' \<and> truthy_prop reportData ''disk''
             \<and> truthy_prop reportData ''network'' \<and> get_prop reportData ''uptime'' = Some u
             \<and> replace_throws env = None
           \<longrightarrow> handle_report env serverId apiKey d
                 = (200, d\<lparr> metrics := (metrics d)(serverId \<mapsto> metrics_of reportData) \<rparr>)
               \<and> m_uptime (metrics_of reportData) = u)"
      by (intro conjI)
  qed
  have c: "fst (handle_report env serverId apiKey d) \<noteq> 200 \<longrightarrow>
      snd (handle_report env serverId apiKey d) = d \<and>
      metrics (snd (handle_report env serverId apiKey d)) = metrics d"
    using handle_report_rejected_keeps by simp
  show ?thesis by (intro conjI a[THEN conjunct1] a[THEN conjunct2, THEN conjunct1]
       a[THEN conjunct2, THEN conjunct2, THEN conjunct1] a[THEN conjunct2, THEN conjunct2, THEN conjunct2] b c)
qed

text \<open>
  Host H reports with its key: a report with \<^verbatim>\<open>timestamp = 0\<close> is rejected with 400 and
  the store is unchanged; a report with \<^verbatim>\<open>uptime = 0\<close> and a non-zero timestamp is accepted
  and stored with that uptime.
\<close>

theorem C10_report_validation_witness:
  "handle_report (scenario_report_env (scenario_report 0 500)) ''h'' (Some ''key'')
      (scenario_db ''UP'' None) = (400, scenario_db ''UP'' None) \<and>
   fst (handle_report (scenario_report_env (scenario_report 1700000000 0)) ''h'' (Some ''key'')
      (scenario_db ''UP'' None)) = 200 \<and>
   map_option m_uptime
     (metrics (snd (handle_report (scenario_report_env (scenario_report 1700000000 0)) ''h''
        (Some ''key'') (scenario_db ''UP'' None))) ''h'') = Some (JNum 0)"
proof -
  let ?sd = "\<lparr> server_name = ''H'', api_key = ''key'', server_last_notified_down_at = None \<rparr>"
  have pre: "truthy_str (Some ''key'') \<and> server_select_throws (scenario_report_env j) = None
      \<and> servers (scenario_db ''UP'' None) ''h'' = Some ?sd
      \<and> Some (api_key ?sd) = Some ''key'' \<and> body (scenario_report_env j) = Inr j" for j
    by (simp add: scenario_report_env_def scenario_db_def truthy_str_def)
  have nn: "scenario_report ts up \<noteq> JNull" for ts up
    by (simp add: scenario_report_def)
  have ts: "get_prop (scenario_report 0 500) ''timestamp'' = Some (JNum 0)"
    by (simp add: scenario_report_def get_prop_def)
  have ok: "truthy_prop (scenario_report 1700000000 0) ''timestamp''"
           "truthy_prop (scenario_report 1700000000 0) ''cpu''"
           "truthy_prop (scenario_report 1700000000 0) ''memory''"
           "truthy_prop (scenario_report 1700000000 0) ''disk''"
           "truthy_prop (scenario_report 1700000000 0) ''network''"
           "get_prop (scenario_report 1700000000 0) ''uptime'' = Some (JNum 0)"
           "replace_throws (scenario_report_env (scenario_report 1700000000 0)) = None"
    by (simp_all add: scenario_report_def scenario_report_env_def get_prop_def truthy_prop_def)
  note i1 = C10_report_validation[of "Some ''key''" "scenario_report_env (scenario_report 0 500)"
              "scenario_db ''UP'' None" "''h''" ?sd "scenario_report 0 500",
              THEN conjunct2, THEN conjunct2, THEN conjunct2, THEN conjunct2, THEN conjunct1]
  from i1 pre[of "scenario_report 0 500"] nn[of 0 500]
  have "\<forall>k v. k \<in> {''timestamp'', ''cpu'', ''memory'', ''disk'', ''network''}
             \<and> get_prop (scenario_report 0 500) k = Some v \<and> \<not> truthy v
           \<longrightarrow> handle_report (scenario_report_env (scenario_report 0 500)) ''h'' (Some ''key'')
                 (scenario_db ''UP'' None) = (400, scenario_db ''UP'' None)"
    by blast
  from this[rule_format, of "''timestamp''" "JNum 0"] ts
  have a: "handle_report (scenario_report_env (scenario_report 0 500)) ''h'' (Some ''key'')
      (scenario_db ''UP'' None) = (400, scenario_db ''UP'' None)"
    by simp
  note i2 = C10_report_validation[of "Some ''key''"
              "scenario_report_env (scenario_report 1700000000 0)"
              "scenario_db ''UP'' None" "''h''" ?sd "scenario_report 1700000000 0",
              THEN conjunct2, THEN conjunct2, THEN conjunct2, THEN conjunct2, THEN conjunct1]
  from i2 pre[of "scenario_report 1700000000 0"] nn[of 1700000000 0]
  have "\<forall>u. truthy_prop (scenario_report 1700000000 0) ''timestamp''
             \<and> truthy_prop (scenario_report 1700000000 0) ''cpu''
             \<and> truthy_prop (scenario_report 1700000000 0) ''memory''
             \<and> truthy_prop (scenario_report 1700000000 0) ''disk''
             \<and> truthy_prop (scenario_report 1700000000 0) ''network''
             \<and> get_prop (scenario_report 1700000000 0) ''uptime'' = Some u
             \<and> replace_throws (scenario_report_env (scenario_report 1700000000 0)) = None
           \<longrightarrow> handle_report (scenario_report_env (scenario_report 1700000000 0)) ''h''
                   (Some ''key'') (scenario_db ''UP'' None)
                 = (200, (scenario_db ''UP'' None)\<lparr> metrics := (metrics (scenario_db ''UP'' None))
                       (''h'' \<mapsto> metrics_of (scenario_report 1700000000 0)) \<rparr>)
               \<and> m_uptime (metrics_of (scenario_report 1700000000 0)) = u"
    by blast
  from this[rule_format, of "JNum 0"] ok
  have b: "handle_report (scenario_report_env (scenario_report 1700000000 0)) ''h''
                   (Some ''key'') (scenario_db ''UP'' None)
                 = (200, (scenario_db ''UP'' None)\<lparr> metrics := (metrics (scenario_db ''UP'' None))
                       (''h'' \<mapsto> metrics_of (scenario_report 1700000000 0)) \<rparr>)"
    and c: "m_uptime (metrics_of (scenario_report 1700000000 0)) = JNum 0"
    by blast+
  from a b c show ?thesis by simp
qed

section \<open>The loss percentage\<close>























end
